theory Spec2Isabelle
  imports Main "HOL-Library.Word"
begin

section \<open>kubectl-rook-ceph: the debug workflow (pkg/debug/start_debug.go)\<close>

text \<open>
  The program is a client of the Kubernetes API. Every call of the client is an effect
  on the cluster, so the embedding threads an abstract cluster state \<open>'w\<close> through the
  calls and records what the program does as a list of events, in program order: each
  API call with its arguments and the answer it received, each \<open>logging.Info\<close> line and
  each \<open>time.Sleep\<close>. The client itself (\<open>kubernetes.Interface\<close>) is a parameter: a
  record of the five calls the program makes, over any cluster state.
\<close>

subsection \<open>The Kubernetes objects the code reads and writes\<close>

text \<open>A Go \<open>map[string]string\<close> may be \<open>nil\<close>: reading a nil map gives the zero value,
  writing to it panics. \<open>None\<close> is the nil map.\<close>

type_synonym labels = "(string \<rightharpoonup> string) option"

definition index_labels :: "labels \<Rightarrow> string \<Rightarrow> string" where
  "index_labels m key = (case m of None \<Rightarrow> '''' | Some f \<Rightarrow> (case f key of None \<Rightarrow> '''' | Some v \<Rightarrow> v))"

record ObjectMeta =
  Name :: string
  Namespace :: string
  Labels :: labels

record Probe =
  InitialDelaySeconds :: "32 word"
  PeriodSeconds :: "32 word"

record Container =
  Image :: string
  Command :: "string list"
  Args :: "string list"
  LivenessProbe :: "Probe option"
  ReadinessProbe :: "Probe option"
  StartupProbe :: "Probe option"

record PodSpec =
  Containers :: "Container list"

record PodTemplateSpec =
  ObjectMeta :: ObjectMeta
  Spec :: PodSpec

record DeploymentSpec =
  Replicas :: "32 word option"
  Template :: PodTemplateSpec

record Deployment =
  ObjectMeta :: ObjectMeta
  Spec :: DeploymentSpec

record ScaleSpec =
  Replicas :: "32 word"

record Scale =
  ObjectMeta :: ObjectMeta
  Spec :: ScaleSpec

datatype PodPhase = PodPending | PodRunning | PodSucceeded | PodFailed | PodUnknown

record PodStatus =
  Phase :: PodPhase

record Pod =
  ObjectMeta :: ObjectMeta
  Status :: PodStatus

subsection \<open>Errors, panics and process exit\<close>

datatype StatusReason =
  StatusReasonUnknown | StatusReasonNotFound | StatusReasonAlreadyExists
  | StatusReasonConflict | StatusReasonForbidden | StatusReasonTimeout

text \<open>A Go \<open>error\<close>: either a status error of the API machinery (a reason and a message)
  or a plain message, as \<open>fmt.Errorf\<close> builds with the verbs \<open>%s\<close> and \<open>%v\<close>.\<close>

datatype go_error = StatusError StatusReason string | ErrorString string

fun Error :: "go_error \<Rightarrow> string" where
  "Error (StatusError r m) = m"
| "Error (ErrorString m) = m"

text \<open>\<open>kerrors.IsNotFound(err)\<close>; a nil error is not a not-found error.\<close>

fun IsNotFound :: "go_error option \<Rightarrow> bool" where
  "IsNotFound None = False"
| "IsNotFound (Some (StatusError r m)) = (r = StatusReasonNotFound)"
| "IsNotFound (Some (ErrorString m)) = False"

definition err_of :: "go_error + 'a \<Rightarrow> go_error option" where
  "err_of r = (case r of Inl e \<Rightarrow> Some e | Inr v \<Rightarrow> None)"

datatype panic = IndexOutOfRange nat nat | AssignmentToEntryInNilMap

text \<open>How a call ends: it returns, it panics, or \<open>logging.Fatal\<close> ends the process.\<close>

datatype 'a outcome = Return 'a | Panic panic | Fatal go_error

subsection \<open>The client and the events of a run\<close>

record 'w Interface =
  Deployments_Get :: "string \<Rightarrow> string \<Rightarrow> 'w \<Rightarrow> (go_error + Deployment) \<times> 'w"
  Deployments_UpdateScale :: "string \<Rightarrow> string \<Rightarrow> Scale \<Rightarrow> 'w \<Rightarrow> (go_error + Scale) \<times> 'w"
  Deployments_Create :: "string \<Rightarrow> Deployment \<Rightarrow> 'w \<Rightarrow> (go_error + Deployment) \<times> 'w"
  Pods_Get :: "string \<Rightarrow> string \<Rightarrow> 'w \<Rightarrow> (go_error + Pod) \<times> 'w"
  Pods_List :: "string \<Rightarrow> string \<Rightarrow> 'w \<Rightarrow> (go_error + Pod list) \<times> 'w"

text \<open>\<open>LogInfo\<close> keeps the format string and its arguments; \<open>Sleep\<close> keeps the
  \<open>time.Duration\<close>, in nanoseconds.\<close>

datatype event =
  LogInfo string "string list"
  | Sleep int
  | DeploymentsGet string string "go_error + Deployment"
  | DeploymentsUpdateScale string string Scale "go_error + Scale"
  | DeploymentsCreate string Deployment "go_error + Deployment"
  | PodsGet string string "go_error + Pod"
  | PodsList string string "go_error + Pod list"

definition Second :: int where
  "Second = 1000000000"

subsection \<open>SetDeploymentScale (lines 111-126)\<close>

text \<open>\<open>scaleCount\<close> is a Go \<open>int\<close> (64 bits); \<open>int32(scaleCount)\<close> keeps its low 32 bits.\<close>

definition SetDeploymentScale ::
  "'w Interface \<Rightarrow> string \<Rightarrow> string \<Rightarrow> 64 word \<Rightarrow> 'w \<Rightarrow> go_error option \<times> event list \<times> 'w" where
  "SetDeploymentScale k8sclientset clusterNamespace deploymentName scaleCount w =
     (let scale = \<lparr>Scale.ObjectMeta = \<lparr>Name = deploymentName, Namespace = clusterNamespace, Labels = None\<rparr>,
                   Scale.Spec = \<lparr>ScaleSpec.Replicas = ucast scaleCount\<rparr>\<rparr>;
          r = Deployments_UpdateScale k8sclientset clusterNamespace deploymentName scale w;
          tr = [DeploymentsUpdateScale clusterNamespace deploymentName scale (fst r)]
      in case fst r of
           Inl err \<Rightarrow>
             (Some (ErrorString (''failed to update scale of deployment '' @ deploymentName @ ''. ''
                                 @ Error err @ ''\<newline>'')), tr, snd r)
         | Inr s \<Rightarrow> (None, tr, snd r))"

subsection \<open>GetDeployment (lines 128-137)\<close>

definition GetDeployment ::
  "'w Interface \<Rightarrow> string \<Rightarrow> string \<Rightarrow> 'w \<Rightarrow> (go_error + Deployment) \<times> event list \<times> 'w" where
  "GetDeployment k8sclientset clusterNamespace deploymentName w =
     (let r = Deployments_Get k8sclientset clusterNamespace deploymentName w;
          tr = [LogInfo ''fetching the deployment %s to be running\<newline>'' [deploymentName],
                DeploymentsGet clusterNamespace deploymentName (fst r)]
      in case fst r of
           Inl err \<Rightarrow> (Inl err, tr, snd r)
         | Inr deployment \<Rightarrow>
             (Inr deployment, tr @ [LogInfo ''deployment %s exists\<newline>'' [deploymentName]], snd r))"

subsection \<open>waitForPodDeletion (lines 139-151)\<close>

text \<open>The loop \<open>for i := 0; i < 60; i++\<close>, entered at counter \<open>i\<close>.\<close>

function waitForPodDeletion_from ::
  "nat \<Rightarrow> 'w Interface \<Rightarrow> string \<Rightarrow> string \<Rightarrow> 'w \<Rightarrow> go_error option \<times> event list \<times> 'w" where
  "waitForPodDeletion_from i k8sclientset clusterNamespace podName w =
     (if i < 60 then
        (let r = Pods_Get k8sclientset clusterNamespace podName w
         in if IsNotFound (err_of (fst r))
            then (None, [PodsGet clusterNamespace podName (fst r)], snd r)
            else (case waitForPodDeletion_from (i + 1) k8sclientset clusterNamespace podName (snd r) of
                    (res, tr, w') \<Rightarrow>
                      (res, [PodsGet clusterNamespace podName (fst r),
                             LogInfo ''waiting for pod %q to be deleted\<newline>'' [podName],
                             Sleep (Second * 5)] @ tr, w')))
      else (Some (ErrorString (''failed to delete pod '' @ podName)), [], w))"
  by pat_completeness auto
termination
  by (relation "measure (\<lambda>(i, k, ns, n, w). 60 - i)") auto

definition waitForPodDeletion ::
  "'w Interface \<Rightarrow> string \<Rightarrow> string \<Rightarrow> 'w \<Rightarrow> go_error option \<times> event list \<times> 'w" where
  "waitForPodDeletion k8sclientset clusterNamespace podName w =
     waitForPodDeletion_from 0 k8sclientset clusterNamespace podName w"

subsection \<open>k8sutil.WaitForPodToRun\<close>

text \<open>Modelled from the spec: \<open>k8sutil.WaitForPodToRun\<close>, whose package is not among the
  sources. The spec's pod-wait helper, given a namespace and a label selector, queries the
  API again and again, at a fixed interval and with a fixed retry budget, until a pod
  matching the selector reports the Running phase; exhausting the budget is an error that
  embeds the target. The spec gives one budget, 60 attempts 5 seconds apart, which is
  taken here; it does not give the wording of the error.\<close>

definition running :: "Pod \<Rightarrow> bool" where
  "running p = (Phase (Status p) = PodRunning)"

function WaitForPodToRun_from ::
  "nat \<Rightarrow> 'w Interface \<Rightarrow> string \<Rightarrow> string \<Rightarrow> 'w \<Rightarrow> (go_error + Pod) \<times> event list \<times> 'w" where
  "WaitForPodToRun_from i k8sclientset namespace labelSelector w =
     (if i < 60 then
        (let r = Pods_List k8sclientset namespace labelSelector w
         in case (case fst r of Inl err \<Rightarrow> None | Inr items \<Rightarrow> find running items) of
              Some pod \<Rightarrow> (Inr pod, [PodsList namespace labelSelector (fst r)], snd r)
            | None \<Rightarrow>
                (case WaitForPodToRun_from (i + 1) k8sclientset namespace labelSelector (snd r) of
                   (res, tr, w') \<Rightarrow>
                     (res, [PodsList namespace labelSelector (fst r), Sleep (Second * 5)] @ tr, w')))
      else (Inl (ErrorString (''no running pod with labels matching '' @ labelSelector)), [], w))"
  by pat_completeness auto
termination
  by (relation "measure (\<lambda>(i, k, ns, sel, w). 60 - i)") auto

definition WaitForPodToRun ::
  "'w Interface \<Rightarrow> string \<Rightarrow> string \<Rightarrow> 'w \<Rightarrow> (go_error + Pod) \<times> event list \<times> 'w" where
  "WaitForPodToRun k8sclientset namespace labelSelector w =
     WaitForPodToRun_from 0 k8sclientset namespace labelSelector w"

subsection \<open>startDebug (lines 40-109)\<close>

definition containers :: "Deployment \<Rightarrow> Container list" where
  "containers d = Containers (PodTemplateSpec.Spec (Template (Deployment.Spec d)))"

text \<open>An assignment \<open>deployment.Spec.Template.Spec.Containers[0].F = v\<close>: it panics on an
  empty slice and changes element 0 otherwise.\<close>

definition firstContainer :: "(Container \<Rightarrow> Container) \<Rightarrow> Deployment \<Rightarrow> panic + Deployment" where
  "firstContainer f d =
     (let cs = containers d
      in if cs = [] then Inl (IndexOutOfRange 0 0)
         else Inr (d\<lparr>Deployment.Spec := (Deployment.Spec d)
                     \<lparr>Template := (Template (Deployment.Spec d))
                        \<lparr>PodTemplateSpec.Spec := (PodTemplateSpec.Spec (Template (Deployment.Spec d)))
                           \<lparr>Containers := cs[0 := f (cs ! 0)]\<rparr>\<rparr>\<rparr>\<rparr>))"

text \<open>Lines 47-63: the copy of the fetched deployment and its mutation, with the log
  lines written on the way. The result is the mutated deployment and the map \<open>labels\<close>.
  \<open>labels\<close> is the deployment's own map (Go maps are references), so the write of line 55
  shows in \<open>deployment.Labels\<close> too.\<close>

definition startDebug_mutate ::
  "Deployment \<Rightarrow> string \<Rightarrow> (panic + Deployment \<times> (string \<rightharpoonup> string)) \<times> event list" where
  "startDebug_mutate originalDeployment alternateImageValue =
     (let t_image = (if alternateImageValue \<noteq> ''''
                     then [LogInfo ''setting debug image to %s\<newline>'' [alternateImageValue]] else [])
      in case (if alternateImageValue \<noteq> ''''
               then firstContainer (\<lambda>c. c\<lparr>Image := alternateImageValue\<rparr>) originalDeployment
               else Inr originalDeployment) of
           Inl p \<Rightarrow> (Inl p, t_image)
         | Inr d1 \<Rightarrow>
          (case Labels (Deployment.ObjectMeta d1) of
             None \<Rightarrow> (Inl AssignmentToEntryInNilMap, t_image)
           | Some m \<Rightarrow>
            (let labels = m(''ceph.rook.io/do-not-reconcile'' \<mapsto> ''true'');
                 d2 = d1\<lparr>Deployment.ObjectMeta := (Deployment.ObjectMeta d1)\<lparr>Labels := Some labels\<rparr>\<rparr>
             in case firstContainer (\<lambda>c. c\<lparr>LivenessProbe := None\<rparr>) d2 of
                  Inl p \<Rightarrow> (Inl p, t_image)
                | Inr d3 \<Rightarrow>
                 (case firstContainer (\<lambda>c. c\<lparr>StartupProbe := None\<rparr>) d3 of
                    Inl p \<Rightarrow> (Inl p, t_image)
                  | Inr d4 \<Rightarrow>
                   (let t_command = t_image @ [LogInfo ''setting debug command to main container'' []]
                    in case firstContainer (\<lambda>c. c\<lparr>Command := [''sleep'', ''infinity'']\<rparr>) d4 of
                         Inl p \<Rightarrow> (Inl p, t_command)
                       | Inr d5 \<Rightarrow>
                        (case firstContainer (\<lambda>c. c\<lparr>Args := []\<rparr>) d5 of
                           Inl p \<Rightarrow> (Inl p, t_command)
                         | Inr d6 \<Rightarrow> (Inr (d6, labels), t_command)))))))"

text \<open>Line 65, the selector built from two labels of the pod template.\<close>

definition labelSelector_of :: "labels \<Rightarrow> string" where
  "labelSelector_of l =
     ''ceph_daemon_type='' @ index_labels l ''ceph_daemon_type''
     @ '',ceph_daemon_id='' @ index_labels l ''ceph_daemon_id''"

text \<open>The first argument is the \<open>%s\<close> rendering of a \<open>*appsv1.Deployment\<close> (its generated
  \<open>String\<close> method, library code), used by the error of line 94. Line 104 ends the process
  through \<open>logging.Fatal\<close> instead of returning.\<close>

definition startDebug ::
  "(Deployment \<Rightarrow> string) \<Rightarrow> 'w Interface \<Rightarrow> string \<Rightarrow> string \<Rightarrow> string \<Rightarrow> 'w
   \<Rightarrow> go_error option outcome \<times> event list \<times> 'w" where
  "startDebug fmtDeployment k8sclientset clusterNamespace deploymentName alternateImageValue w0 =
   (case GetDeployment k8sclientset clusterNamespace deploymentName w0 of
      (Inl err, t1, w1) \<Rightarrow>
        (Return (Some (ErrorString (''Missing mon or osd deployment name '' @ deploymentName @ ''. ''
                                    @ Error err @ ''\<newline>''))), t1, w1)
    | (Inr originalDeployment, t1, w1) \<Rightarrow>
     (case startDebug_mutate originalDeployment alternateImageValue of
        (Inl p, t2) \<Rightarrow> (Panic p, t1 @ t2, w1)
      | (Inr (deployment, labels), t2) \<Rightarrow>
       (let labelSelector =
              labelSelector_of (Labels (PodTemplateSpec.ObjectMeta (Template (Deployment.Spec deployment))))
        in case WaitForPodToRun k8sclientset clusterNamespace labelSelector w1 of
             (Inl err, t3, w3) \<Rightarrow> (Return (Some err), t1 @ t2 @ t3, w3)
           | (Inr deploymentPodName, t3, w3) \<Rightarrow>
            (case SetDeploymentScale k8sclientset clusterNamespace
                    (Name (Deployment.ObjectMeta deployment)) 0 w3 of
               (Some err, t4, w4) \<Rightarrow> (Return (Some err), t1 @ t2 @ t3 @ t4, w4)
             | (None, t4, w4) \<Rightarrow>
              (let t5 = [LogInfo ''deployment %s scaled down\<newline>'' [Name (Deployment.ObjectMeta deployment)],
                         LogInfo ''waiting for the deployment pod %s to be deleted\<newline>''
                           [Name (Pod.ObjectMeta deploymentPodName)]]
               in case waitForPodDeletion k8sclientset clusterNamespace deploymentName w4 of
                    (Some err, t6, w6) \<Rightarrow> (Return (Some err), t1 @ t2 @ t3 @ t4 @ t5 @ t6, w6)
                  | (None, t6, w6) \<Rightarrow>
                   (let debugDeploymentSpec =
                          \<lparr>Deployment.ObjectMeta =
                             \<lparr>Name = deploymentName @ ''-debug'', Namespace = clusterNamespace,
                              Labels = Some labels\<rparr>,
                           Deployment.Spec = Deployment.Spec deployment\<rparr>;
                        r = Deployments_Create k8sclientset clusterNamespace debugDeploymentSpec w6;
                        t7 = [DeploymentsCreate clusterNamespace debugDeploymentSpec (fst r)]
                    in case fst r of
                         Inl err \<Rightarrow>
                           (Return (Some (ErrorString (''Error creating deployment ''
                                      @ fmtDeployment debugDeploymentSpec @ ''. '' @ Error err @ ''\<newline>''))),
                            t1 @ t2 @ t3 @ t4 @ t5 @ t6 @ t7, snd r)
                       | Inr debugDeployment \<Rightarrow>
                        (let t8 = [LogInfo ''ensure the debug deployment %s is scaled up\<newline>'' [deploymentName]]
                         in case SetDeploymentScale k8sclientset clusterNamespace
                                   (Name (Deployment.ObjectMeta debugDeployment)) 1 (snd r) of
                              (Some err, t9, w9) \<Rightarrow>
                                (Return (Some err), t1 @ t2 @ t3 @ t4 @ t5 @ t6 @ t7 @ t8 @ t9, w9)
                            | (None, t9, w9) \<Rightarrow>
                             (case WaitForPodToRun k8sclientset clusterNamespace labelSelector w9 of
                                (Inl err, t10, w10) \<Rightarrow>
                                  (Fatal err, t1 @ t2 @ t3 @ t4 @ t5 @ t6 @ t7 @ t8 @ t9 @ t10, w10)
                              | (Inr pod, t10, w10) \<Rightarrow>
                                  (Return None,
                                   t1 @ t2 @ t3 @ t4 @ t5 @ t6 @ t7 @ t8 @ t9 @ t10
                                   @ [LogInfo ''pod %s is ready for debugging'' [Name (Pod.ObjectMeta pod)]],
                                   w10)))))))))"

subsection \<open>StartDebug (lines 33-38)\<close>

text \<open>Modelled from the spec: \<open>logging.Fatal\<close>, whose package is not among the sources; the
  workflow entry point logs the error and terminates the process.\<close>

definition StartDebug ::
  "(Deployment \<Rightarrow> string) \<Rightarrow> 'w Interface \<Rightarrow> string \<Rightarrow> string \<Rightarrow> string \<Rightarrow> 'w
   \<Rightarrow> unit outcome \<times> event list \<times> 'w" where
  "StartDebug fmtDeployment k8sclientset clusterNamespace deploymentName alternateImageValue w =
     (case startDebug fmtDeployment k8sclientset clusterNamespace deploymentName alternateImageValue w of
        (Return None, tr, w') \<Rightarrow> (Return (), tr, w')
      | (Return (Some err), tr, w') \<Rightarrow> (Fatal err, tr, w')
      | (Panic p, tr, w') \<Rightarrow> (Panic p, tr, w')
      | (Fatal err, tr, w') \<Rightarrow> (Fatal err, tr, w'))"

subsection \<open>Reading a run: what was called, and in which order\<close>

definition scaleUpdates :: "event list \<Rightarrow> (string \<times> string \<times> 32 word) list" where
  "scaleUpdates tr =
     concat (map (\<lambda>e. case e of
                        DeploymentsUpdateScale ns n s r \<Rightarrow> [(ns, n, ScaleSpec.Replicas (Scale.Spec s))]
                      | _ \<Rightarrow> []) tr)"

definition createCalls :: "event list \<Rightarrow> (string \<times> Deployment) list" where
  "createCalls tr = concat (map (\<lambda>e. case e of DeploymentsCreate ns d r \<Rightarrow> [(ns, d)] | _ \<Rightarrow> []) tr)"

definition deploymentGets :: "event list \<Rightarrow> (string \<times> string) list" where
  "deploymentGets tr = concat (map (\<lambda>e. case e of DeploymentsGet ns n r \<Rightarrow> [(ns, n)] | _ \<Rightarrow> []) tr)"

definition podGets :: "event list \<Rightarrow> (string \<times> string) list" where
  "podGets tr = concat (map (\<lambda>e. case e of PodsGet ns n r \<Rightarrow> [(ns, n)] | _ \<Rightarrow> []) tr)"

definition sleeps :: "event list \<Rightarrow> int list" where
  "sleeps tr = concat (map (\<lambda>e. case e of Sleep t \<Rightarrow> [t] | _ \<Rightarrow> []) tr)"

text \<open>A scale update with the given replica count; one that the API accepted.\<close>

definition scaleUpdate :: "32 word \<Rightarrow> event \<Rightarrow> bool" where
  "scaleUpdate n e =
     (case e of DeploymentsUpdateScale ns name s r \<Rightarrow> ScaleSpec.Replicas (Scale.Spec s) = n | _ \<Rightarrow> False)"

definition scaleUpdated :: "32 word \<Rightarrow> event \<Rightarrow> bool" where
  "scaleUpdated n e =
     (case e of
        DeploymentsUpdateScale ns name s r \<Rightarrow>
          ScaleSpec.Replicas (Scale.Spec s) = n \<and> (case r of Inl err \<Rightarrow> False | Inr s' \<Rightarrow> True)
      | _ \<Rightarrow> False)"

definition createCall :: "event \<Rightarrow> bool" where
  "createCall e = (case e of DeploymentsCreate ns d r \<Rightarrow> True | _ \<Rightarrow> False)"

definition created :: "event \<Rightarrow> bool" where
  "created e =
     (case e of DeploymentsCreate ns d r \<Rightarrow> (case r of Inl err \<Rightarrow> False | Inr d' \<Rightarrow> True) | _ \<Rightarrow> False)"

definition podPoll :: "event \<Rightarrow> bool" where
  "podPoll e = (case e of PodsGet ns n r \<Rightarrow> True | _ \<Rightarrow> False)"

text \<open>A list of the pods of a selector that shows one of them Running; a get of a pod
  answered with not-found.\<close>

definition observedRunning :: "string \<Rightarrow> string \<Rightarrow> event \<Rightarrow> bool" where
  "observedRunning ns sel e =
     (case e of
        PodsList ns' sel' r \<Rightarrow>
          ns' = ns \<and> sel' = sel \<and> (case r of Inl err \<Rightarrow> False | Inr items \<Rightarrow> list_ex running items)
      | _ \<Rightarrow> False)"

definition podAbsent :: "string \<Rightarrow> string \<Rightarrow> event \<Rightarrow> bool" where
  "podAbsent ns n e =
     (case e of PodsGet ns' n' r \<Rightarrow> ns' = ns \<and> n' = n \<and> IsNotFound (err_of r) | _ \<Rightarrow> False)"

text \<open>A list of the pods of a selector, whatever the answer.\<close>

definition podListed :: "string \<Rightarrow> string \<Rightarrow> event \<Rightarrow> bool" where
  "podListed ns sel e = (case e of PodsList ns' sel' r \<Rightarrow> ns' = ns \<and> sel' = sel | _ \<Rightarrow> False)"

text \<open>A call of a deployment operation that the API answered with an error.\<close>

definition failedCall :: "event \<Rightarrow> bool" where
  "failedCall e =
     (case e of
        DeploymentsGet ns n r \<Rightarrow> (case r of Inl err \<Rightarrow> True | Inr d \<Rightarrow> False)
      | DeploymentsUpdateScale ns n s r \<Rightarrow> (case r of Inl err \<Rightarrow> True | Inr s' \<Rightarrow> False)
      | DeploymentsCreate ns d r \<Rightarrow> (case r of Inl err \<Rightarrow> True | Inr d' \<Rightarrow> False)
      | _ \<Rightarrow> False)"

text \<open>The events of the two waiting loops: \<open>WaitForPodToRun\<close> lists pods and sleeps,
  \<open>waitForPodDeletion\<close> gets a pod, logs and sleeps (the mutation of lines 47-63 only logs).\<close>

definition listStep :: "event \<Rightarrow> bool" where
  "listStep e = (case e of PodsList ns sel r \<Rightarrow> True | Sleep t \<Rightarrow> True | _ \<Rightarrow> False)"

definition pollStep :: "event \<Rightarrow> bool" where
  "pollStep e = (case e of PodsGet ns n r \<Rightarrow> True | Sleep t \<Rightarrow> True | LogInfo f a \<Rightarrow> True | _ \<Rightarrow> False)"

text \<open>What lines 49-63 leave in the first container.\<close>

definition debugContainer :: "string \<Rightarrow> Container \<Rightarrow> Container" where
  "debugContainer alternateImageValue c =
     c\<lparr>Image := (if alternateImageValue \<noteq> '''' then alternateImageValue else Image c),
       LivenessProbe := None, StartupProbe := None,
       Command := [''sleep'', ''infinity''], Args := []\<rparr>"

text \<open>\<open>only_after Q P tr\<close>: in \<open>tr\<close> every event with \<open>Q\<close> comes after some event with \<open>P\<close>.
  \<open>stops_at_failure tr\<close>: nothing follows a failed call.\<close>

fun only_after :: "(event \<Rightarrow> bool) \<Rightarrow> (event \<Rightarrow> bool) \<Rightarrow> event list \<Rightarrow> bool" where
  "only_after Q P [] = True"
| "only_after Q P (e # es) = (\<not> Q e \<and> (P e \<or> only_after Q P es))"

fun stops_at_failure :: "event list \<Rightarrow> bool" where
  "stops_at_failure [] = True"
| "stops_at_failure (e # es) = (if failedCall e then es = [] else stops_at_failure es)"

text \<open>\<open>events_after Q tr\<close>: what follows the first event with \<open>Q\<close> in \<open>tr\<close> (nothing when
  there is no such event).\<close>

fun events_after :: "(event \<Rightarrow> bool) \<Rightarrow> event list \<Rightarrow> event list" where
  "events_after Q [] = []"
| "events_after Q (e # es) = (if Q e then es else events_after Q es)"

subsection \<open>The pieces of a run\<close>

text \<open>Names for what \<open>startDebug\<close> builds on its way: the deployment after lines 47-63,
  the scale object of \<open>SetDeploymentScale\<close>, the deployment handed to the create call, the
  selector of line 65, and the events of lines 41-63 and 71-76 when nothing fails.\<close>

definition mutated :: "Deployment \<Rightarrow> string \<Rightarrow> (string \<rightharpoonup> string) \<Rightarrow> Deployment" where
  "mutated d alt m =
     d\<lparr>Deployment.ObjectMeta := (Deployment.ObjectMeta d)\<lparr>Labels := Some (m(''ceph.rook.io/do-not-reconcile'' \<mapsto> ''true''))\<rparr>,
       Deployment.Spec := (Deployment.Spec d)
         \<lparr>Template := (Template (Deployment.Spec d))
            \<lparr>PodTemplateSpec.Spec := (PodTemplateSpec.Spec (Template (Deployment.Spec d)))
               \<lparr>Containers := debugContainer alt (hd (containers d)) # tl (containers d)\<rparr>\<rparr>\<rparr>\<rparr>"

definition scaleOf :: "string \<Rightarrow> string \<Rightarrow> 32 word \<Rightarrow> Scale" where
  "scaleOf ns name n =
     \<lparr>Scale.ObjectMeta = \<lparr>Name = name, Namespace = ns, Labels = None\<rparr>,
      Scale.Spec = \<lparr>ScaleSpec.Replicas = n\<rparr>\<rparr>"

definition debugDeploymentOf :: "string \<Rightarrow> string \<Rightarrow> Deployment \<Rightarrow> string \<Rightarrow> (string \<rightharpoonup> string) \<Rightarrow> Deployment" where
  "debugDeploymentOf ns name d alt m =
     \<lparr>Deployment.ObjectMeta =
        \<lparr>Name = name @ ''-debug'', Namespace = ns,
         Labels = Some (m(''ceph.rook.io/do-not-reconcile'' \<mapsto> ''true''))\<rparr>,
      Deployment.Spec = Deployment.Spec (mutated d alt m)\<rparr>"

definition selectorOf :: "Deployment \<Rightarrow> string" where
  "selectorOf d = labelSelector_of (Labels (PodTemplateSpec.ObjectMeta (Template (Deployment.Spec d))))"

definition preamble :: "string \<Rightarrow> string \<Rightarrow> Deployment \<Rightarrow> string \<Rightarrow> event list" where
  "preamble ns name d alt =
     [LogInfo ''fetching the deployment %s to be running\<newline>'' [name],
      DeploymentsGet ns name (Inr d),
      LogInfo ''deployment %s exists\<newline>'' [name]]
     @ (if alt \<noteq> '''' then [LogInfo ''setting debug image to %s\<newline>'' [alt]] else [])
     @ [LogInfo ''setting debug command to main container'' []]"

definition scaledDown :: "string \<Rightarrow> Deployment \<Rightarrow> Scale \<Rightarrow> Pod \<Rightarrow> event list" where
  "scaledDown ns d s p =
     [DeploymentsUpdateScale ns (Name (Deployment.ObjectMeta d))
        (scaleOf ns (Name (Deployment.ObjectMeta d)) 0) (Inr s),
      LogInfo ''deployment %s scaled down\<newline>'' [Name (Deployment.ObjectMeta d)],
      LogInfo ''waiting for the deployment pod %s to be deleted\<newline>'' [Name (Pod.ObjectMeta p)]]"

subsection \<open>A client over a small cluster, for running the code on concrete inputs\<close>

text \<open>The cluster holds deployments and pods and nothing moves by itself, like the
  object tracker of a test client. A pod matches a selector when the selector is the one
  the workflow builds from the pod's two daemon labels.\<close>

record cluster =
  deployments :: "Deployment list"
  pods :: "Pod list"

definition named :: "string \<Rightarrow> string \<Rightarrow> ObjectMeta \<Rightarrow> bool" where
  "named ns n m = (Namespace m = ns \<and> Name m = n)"

definition notFound :: "string \<Rightarrow> go_error" where
  "notFound n = StatusError StatusReasonNotFound (n @ '' not found'')"

definition cluster_client :: "cluster Interface" where
  "cluster_client =
     \<lparr>Deployments_Get = (\<lambda>ns n w.
        (case find (\<lambda>d. named ns n (Deployment.ObjectMeta d)) (deployments w) of
           None \<Rightarrow> Inl (notFound n) | Some d \<Rightarrow> Inr d, w)),
      Deployments_UpdateScale = (\<lambda>ns n s w.
        if list_ex (\<lambda>d. named ns n (Deployment.ObjectMeta d)) (deployments w)
        then (Inr s, w\<lparr>deployments :=
                map (\<lambda>d. if named ns n (Deployment.ObjectMeta d)
                          then d\<lparr>Deployment.Spec := (Deployment.Spec d)
                                   \<lparr>DeploymentSpec.Replicas := Some (ScaleSpec.Replicas (Scale.Spec s))\<rparr>\<rparr>
                          else d) (deployments w)\<rparr>)
        else (Inl (notFound n), w)),
      Deployments_Create = (\<lambda>ns d w.
        if list_ex (\<lambda>d'. named ns (Name (Deployment.ObjectMeta d)) (Deployment.ObjectMeta d')) (deployments w)
        then (Inl (StatusError StatusReasonAlreadyExists
                     (Name (Deployment.ObjectMeta d) @ '' already exists'')), w)
        else (Inr d, w\<lparr>deployments := deployments w @ [d]\<rparr>)),
      Pods_Get = (\<lambda>ns n w.
        (case find (\<lambda>p. named ns n (Pod.ObjectMeta p)) (pods w) of
           None \<Rightarrow> Inl (notFound n) | Some p \<Rightarrow> Inr p, w)),
      Pods_List = (\<lambda>ns sel w.
        (Inr (filter (\<lambda>p. Namespace (Pod.ObjectMeta p) = ns
                          \<and> labelSelector_of (Labels (Pod.ObjectMeta p)) = sel) (pods w)), w))\<rparr>"

definition osd_label_map :: "string \<rightharpoonup> string" where
  "osd_label_map = [''app'' \<mapsto> ''rook-ceph-osd'', ''ceph_daemon_type'' \<mapsto> ''osd'', ''ceph_daemon_id'' \<mapsto> ''0'']"

definition osd_labels :: labels where
  "osd_labels = Some osd_label_map"

definition osd_probe :: Probe where
  "osd_probe = \<lparr>InitialDelaySeconds = 10, PeriodSeconds = 10\<rparr>"

definition osd_container :: Container where
  "osd_container =
     \<lparr>Image = ''quay.io/ceph/ceph:v17'', Command = [''ceph-osd''], Args = [''--foreground'', ''--id'', ''0''],
      LivenessProbe = Some osd_probe, ReadinessProbe = Some osd_probe, StartupProbe = Some osd_probe\<rparr>"

definition log_container :: Container where
  "log_container =
     \<lparr>Image = ''quay.io/ceph/ceph:v17'', Command = [''bash''], Args = [''-c'', ''tail -f /var/log/ceph.log''],
      LivenessProbe = Some osd_probe, ReadinessProbe = None, StartupProbe = None\<rparr>"

definition osd_deployment :: Deployment where
  "osd_deployment =
     \<lparr>Deployment.ObjectMeta = \<lparr>Name = ''rook-ceph-osd-0'', Namespace = ''rook-ceph'', Labels = osd_labels\<rparr>,
      Deployment.Spec =
        \<lparr>DeploymentSpec.Replicas = Some 1,
         Template = \<lparr>PodTemplateSpec.ObjectMeta = \<lparr>Name = '''', Namespace = '''', Labels = osd_labels\<rparr>,
                     PodTemplateSpec.Spec = \<lparr>Containers = [osd_container, log_container]\<rparr>\<rparr>\<rparr>\<rparr>"

definition osd_pod :: Pod where
  "osd_pod =
     \<lparr>Pod.ObjectMeta = \<lparr>Name = ''rook-ceph-osd-0-7d9f-x2x4q'', Namespace = ''rook-ceph'', Labels = osd_labels\<rparr>,
      Status = \<lparr>Phase = PodRunning\<rparr>\<rparr>"

definition osd_cluster :: cluster where
  "osd_cluster = \<lparr>deployments = [osd_deployment], pods = [osd_pod]\<rparr>"

text \<open>A stand-in for the rendering of a deployment in the error of line 94.\<close>

definition deployment_text :: "Deployment \<Rightarrow> string" where
  "deployment_text d = ''&Deployment{'' @ Name (Deployment.ObjectMeta d) @ ''}''"

text \<open>The cluster as a first run of the workflow on \<open>rook-ceph-osd-0\<close> with the image
  \<open>quay.io/ceph/ceph:debug\<close> leaves it: the original deployment scaled to 0, the debug
  deployment created and scaled to 1 (the pod is still there: nothing in this cluster
  deletes it).\<close>

definition osd_deployment_down :: Deployment where
  "osd_deployment_down =
     osd_deployment\<lparr>Deployment.Spec := (Deployment.Spec osd_deployment)\<lparr>DeploymentSpec.Replicas := Some 0\<rparr>\<rparr>"

definition osd_debug_deployment :: Deployment where
  "osd_debug_deployment =
     \<lparr>Deployment.ObjectMeta =
        \<lparr>Name = ''rook-ceph-osd-0-debug'', Namespace = ''rook-ceph'',
         Labels = Some (osd_label_map(''ceph.rook.io/do-not-reconcile'' \<mapsto> ''true''))\<rparr>,
      Deployment.Spec =
        \<lparr>DeploymentSpec.Replicas = Some 1,
         Template = \<lparr>PodTemplateSpec.ObjectMeta = \<lparr>Name = '''', Namespace = '''', Labels = osd_labels\<rparr>,
                     PodTemplateSpec.Spec =
                       \<lparr>Containers =
                          [\<lparr>Image = ''quay.io/ceph/ceph:debug'', Command = [''sleep'', ''infinity''], Args = [],
                            LivenessProbe = None, ReadinessProbe = Some osd_probe, StartupProbe = None\<rparr>,
                           log_container]\<rparr>\<rparr>\<rparr>\<rparr>"

definition debugged_cluster :: cluster where
  "debugged_cluster = \<lparr>deployments = [osd_deployment_down, osd_debug_deployment], pods = [osd_pod]\<rparr>"

text \<open>The same cluster with a debug deployment already there while the original still
  has its replica.\<close>

definition stale_cluster :: cluster where
  "stale_cluster = \<lparr>deployments = [osd_deployment, osd_debug_deployment], pods = [osd_pod]\<rparr>"

text \<open>A cluster whose deployment has no container and a nil label map.\<close>

definition bare_deployment :: Deployment where
  "bare_deployment =
     \<lparr>Deployment.ObjectMeta = \<lparr>Name = ''rook-ceph-osd-0'', Namespace = ''rook-ceph'', Labels = None\<rparr>,
      Deployment.Spec =
        \<lparr>DeploymentSpec.Replicas = Some 1,
         Template = \<lparr>PodTemplateSpec.ObjectMeta = \<lparr>Name = '''', Namespace = '''', Labels = osd_labels\<rparr>,
                     PodTemplateSpec.Spec = \<lparr>Containers = []\<rparr>\<rparr>\<rparr>\<rparr>"

definition bare_cluster :: cluster where
  "bare_cluster = \<lparr>deployments = [bare_deployment], pods = [osd_pod]\<rparr>"

text \<open>The events of the runs on these clusters: up to the deletion wait, then a create
  that succeeds (first run) or is refused (a run against an existing debug deployment).\<close>

definition run_prefix :: "Deployment \<Rightarrow> event list" where
  "run_prefix d =
     [LogInfo ''fetching the deployment %s to be running\<newline>'' [''rook-ceph-osd-0''],
      DeploymentsGet ''rook-ceph'' ''rook-ceph-osd-0'' (Inr d),
      LogInfo ''deployment %s exists\<newline>'' [''rook-ceph-osd-0''],
      LogInfo ''setting debug image to %s\<newline>'' [''quay.io/ceph/ceph:debug''],
      LogInfo ''setting debug command to main container'' [],
      PodsList ''rook-ceph'' ''ceph_daemon_type=osd,ceph_daemon_id=0'' (Inr [osd_pod]),
      DeploymentsUpdateScale ''rook-ceph'' ''rook-ceph-osd-0''
        (scaleOf ''rook-ceph'' ''rook-ceph-osd-0'' 0) (Inr (scaleOf ''rook-ceph'' ''rook-ceph-osd-0'' 0)),
      LogInfo ''deployment %s scaled down\<newline>'' [''rook-ceph-osd-0''],
      LogInfo ''waiting for the deployment pod %s to be deleted\<newline>'' [''rook-ceph-osd-0-7d9f-x2x4q''],
      PodsGet ''rook-ceph'' ''rook-ceph-osd-0''
        (Inl (StatusError StatusReasonNotFound ''rook-ceph-osd-0 not found''))]"

definition first_run_trace :: "event list" where
  "first_run_trace =
     run_prefix osd_deployment
     @ [DeploymentsCreate ''rook-ceph'' osd_debug_deployment (Inr osd_debug_deployment),
        LogInfo ''ensure the debug deployment %s is scaled up\<newline>'' [''rook-ceph-osd-0''],
        DeploymentsUpdateScale ''rook-ceph'' ''rook-ceph-osd-0-debug''
          (scaleOf ''rook-ceph'' ''rook-ceph-osd-0-debug'' 1)
          (Inr (scaleOf ''rook-ceph'' ''rook-ceph-osd-0-debug'' 1)),
        PodsList ''rook-ceph'' ''ceph_daemon_type=osd,ceph_daemon_id=0'' (Inr [osd_pod]),
        LogInfo ''pod %s is ready for debugging'' [''rook-ceph-osd-0-7d9f-x2x4q'']]"

definition already_exists :: go_error where
  "already_exists = StatusError StatusReasonAlreadyExists ''rook-ceph-osd-0-debug already exists''"

definition refused_run_trace :: "Deployment \<Rightarrow> Deployment \<Rightarrow> event list" where
  "refused_run_trace d dd = run_prefix d @ [DeploymentsCreate ''rook-ceph'' dd (Inl already_exists)]"

definition osd_debug_deployment_down :: Deployment where
  "osd_debug_deployment_down =
     osd_debug_deployment\<lparr>Deployment.Spec :=
       (Deployment.Spec osd_debug_deployment)\<lparr>DeploymentSpec.Replicas := Some 0\<rparr>\<rparr>"

section \<open>Theorems\<close>

subsection \<open>Traces\<close>




lemma only_after_iff:
  "only_after Q P tr \<longleftrightarrow> (\<forall>i < length tr. Q (tr ! i) \<longrightarrow> (\<exists>j < i. P (tr ! j)))"
proof (induction tr)
  case Nil
  then show ?case by simp
next
  case (Cons e es)
  show ?case
  proof (cases "P e")
    case True
    then show ?thesis
      by (auto simp: nth_Cons split: nat.splits)
  next
    case False
    have "(\<forall>i < length (e # es). Q ((e # es) ! i) \<longrightarrow> (\<exists>j < i. P ((e # es) ! j)))
          \<longleftrightarrow> \<not> Q e \<and> (\<forall>i < length es. Q (es ! i) \<longrightarrow> (\<exists>j < i. P (es ! j)))"
      (is "?L \<longleftrightarrow> ?R")
    proof
      assume l: ?L
      then have "\<not> Q e" by fastforce
      moreover have "\<exists>j < i. P (es ! j)" if "i < length es" "Q (es ! i)" for i
      proof -
        from l that obtain j where j: "j < Suc i" "P ((e # es) ! j)" by fastforce
        with False obtain j' where "j = Suc j'" by (cases j) auto
        with j show ?thesis by auto
      qed
      ultimately show ?R by blast
    next
      assume r: ?R
      show ?L
      proof (intro allI impI)
        fix i
        assume i: "i < length (e # es)" "Q ((e # es) ! i)"
        with r obtain i' where i': "i = Suc i'" by (cases i) auto
        with i r obtain j where "j < i'" "P (es ! j)" by auto
        then have "Suc j < i" "P ((e # es) ! Suc j)" using i' by auto
        then show "\<exists>j < i. P ((e # es) ! j)" by blast
      qed
    qed
    with False Cons.IH show ?thesis by simp
  qed
qed

lemma stops_at_failure_iff:
  "stops_at_failure tr \<longleftrightarrow> (\<forall>i < length tr. failedCall (tr ! i) \<longrightarrow> Suc i = length tr)"
proof (induction tr)
  case Nil
  then show ?case by simp
next
  case (Cons e es)
  show ?case
  proof (cases "failedCall e")
    case True
    then show ?thesis
      by (cases es) (auto simp: nth_Cons split: nat.splits)
  next
    case False
    have "(\<forall>i < length (e # es). failedCall ((e # es) ! i) \<longrightarrow> Suc i = length (e # es))
          \<longleftrightarrow> (\<forall>i < length es. failedCall (es ! i) \<longrightarrow> Suc i = length es)"
      using False by (auto simp: nth_Cons less_Suc_eq_0_disj)
    with False Cons.IH show ?thesis by simp
  qed
qed



lemma events_after_iff:
  "list_ex P (events_after Q tr) \<longleftrightarrow>
     (\<exists>i < length tr. Q (tr ! i) \<and> (\<forall>j < i. \<not> Q (tr ! j)) \<and> (\<exists>l < length tr. i < l \<and> P (tr ! l)))"
proof (induction tr)
  case Nil
  then show ?case by simp
next
  case (Cons e es)
  show ?case
  proof (cases "Q e")
    case True
    have "list_ex P es \<longleftrightarrow> (\<exists>l < length (e # es). 0 < l \<and> P ((e # es) ! l))"
    proof
      assume "list_ex P es"
      then obtain n where "n < length es" "P (es ! n)"
        by (auto simp: list_ex_iff in_set_conv_nth)
      then show "\<exists>l < length (e # es). 0 < l \<and> P ((e # es) ! l)"
        by (intro exI [of _ "Suc n"]) simp
    next
      assume "\<exists>l < length (e # es). 0 < l \<and> P ((e # es) ! l)"
      then obtain l where l: "l < length (e # es)" "0 < l" "P ((e # es) ! l)" by blast
      then obtain l' where "l = Suc l'" by (cases l) auto
      with l have "l' < length es" "P (es ! l')" by auto
      then show "list_ex P es" by (auto simp: list_ex_iff)
    qed
    moreover have "(\<exists>i < length (e # es). Q ((e # es) ! i) \<and> (\<forall>j < i. \<not> Q ((e # es) ! j))
                      \<and> (\<exists>l < length (e # es). i < l \<and> P ((e # es) ! l)))
                   \<longleftrightarrow> (\<exists>l < length (e # es). 0 < l \<and> P ((e # es) ! l))"
      (is "?L \<longleftrightarrow> ?R")
    proof
      assume ?L
      then obtain i where i: "i < length (e # es)" "\<forall>j < i. \<not> Q ((e # es) ! j)"
        "\<exists>l < length (e # es). i < l \<and> P ((e # es) ! l)" by blast
      from i(2) True have "i = 0" by (cases i) auto
      with i(3) show ?R by simp
    next
      assume ?R
      with True show ?L by (intro exI [of _ 0]) auto
    qed
    ultimately show ?thesis using True by simp
  next
    case False
    have "(\<exists>i < length (e # es). Q ((e # es) ! i) \<and> (\<forall>j < i. \<not> Q ((e # es) ! j))
              \<and> (\<exists>l < length (e # es). i < l \<and> P ((e # es) ! l)))
          \<longleftrightarrow> (\<exists>i < length es. Q (es ! i) \<and> (\<forall>j < i. \<not> Q (es ! j))
              \<and> (\<exists>l < length es. i < l \<and> P (es ! l)))"
      (is "?L \<longleftrightarrow> ?R")
    proof
      assume ?L
      then obtain i l where il: "i < length (e # es)" "Q ((e # es) ! i)" "\<forall>j < i. \<not> Q ((e # es) ! j)"
        "l < length (e # es)" "i < l" "P ((e # es) ! l)" by blast
      from il(2) False obtain i' where i': "i = Suc i'" by (cases i) auto
      from il(5) i' obtain l' where l': "l = Suc l'" by (cases l) auto
      have "\<forall>j < i'. \<not> Q (es ! j)"
      proof (intro allI impI)
        fix j assume "j < i'"
        then have "Suc j < i" using i' by simp
        with il(3) have "\<not> Q ((e # es) ! Suc j)" by blast
        then show "\<not> Q (es ! j)" by simp
      qed
      with il i' l' show ?R by (intro exI [of _ i']) auto
    next
      assume ?R
      then obtain i l where il: "i < length es" "Q (es ! i)" "\<forall>j < i. \<not> Q (es ! j)"
        "l < length es" "i < l" "P (es ! l)" by blast
      have "\<forall>j < Suc i. \<not> Q ((e # es) ! j)"
      proof (intro allI impI)
        fix j assume j: "j < Suc i"
        show "\<not> Q ((e # es) ! j)"
        proof (cases j)
          case 0
          with False show ?thesis by simp
        next
          case (Suc j')
          with j il(3) show ?thesis by simp
        qed
      qed
      moreover have "\<exists>l' < length (e # es). Suc i < l' \<and> P ((e # es) ! l')"
        using il by (intro exI [of _ "Suc l"]) simp
      ultimately show ?L using il by (intro exI [of _ "Suc i"]) simp
    qed
    with False Cons.IH show ?thesis by simp
  qed
qed

declare waitForPodDeletion_from.simps [simp del] WaitForPodToRun_from.simps [simp del]

lemma waitForPodDeletion_from_events:
  "e \<in> set (fst (snd (waitForPodDeletion_from i k ns n w))) \<Longrightarrow>
     (\<exists>r. e = PodsGet ns n r) \<or> e = LogInfo ''waiting for pod %q to be deleted\<newline>'' [n]
     \<or> e = Sleep (Second * 5)"
proof (induction i k ns n w rule: waitForPodDeletion_from.induct)
  case (1 i k ns n w)
  show ?case
  proof (cases "i < 60")
    case False
    with "1.prems" show ?thesis by (simp add: waitForPodDeletion_from.simps [of i])
  next
    case True
    show ?thesis
    proof (cases "IsNotFound (err_of (fst (Pods_Get k ns n w)))")
      case absent: True
      with True "1.prems" show ?thesis
        by (simp add: waitForPodDeletion_from.simps [of i] Let_def)
    next
      case present: False
      with True "1.prems" "1.IH" [OF True refl present] show ?thesis
        by (auto simp: waitForPodDeletion_from.simps [of i] Let_def split: prod.splits)
    qed
  qed
qed

lemma waitForPodDeletion_from_result:
  "fst (waitForPodDeletion_from i k ns n w) = None
     \<and> list_ex (podAbsent ns n) (fst (snd (waitForPodDeletion_from i k ns n w)))
   \<or> fst (waitForPodDeletion_from i k ns n w) = Some (ErrorString (''failed to delete pod '' @ n))
     \<and> \<not> list_ex (podAbsent ns n) (fst (snd (waitForPodDeletion_from i k ns n w)))"
proof (induction i k ns n w rule: waitForPodDeletion_from.induct)
  case (1 i k ns n w)
  show ?case
  proof (cases "i < 60")
    case False
    then show ?thesis by (simp add: waitForPodDeletion_from.simps [of i])
  next
    case True
    show ?thesis
    proof (cases "IsNotFound (err_of (fst (Pods_Get k ns n w)))")
      case absent: True
      with True show ?thesis
        by (simp add: waitForPodDeletion_from.simps [of i] Let_def podAbsent_def)
    next
      case present: False
      with True "1.IH" [OF True refl present] show ?thesis
        by (auto simp: waitForPodDeletion_from.simps [of i] Let_def podAbsent_def split: prod.splits)
    qed
  qed
qed


lemma waitForPodDeletion_from_pollStep:
  "list_all pollStep (fst (snd (waitForPodDeletion_from i k ns n w)))"
  unfolding list_all_iff
proof
  fix e
  assume "e \<in> set (fst (snd (waitForPodDeletion_from i k ns n w)))"
  from waitForPodDeletion_from_events [OF this] show "pollStep e"
    by (auto simp: pollStep_def)
qed

lemma WaitForPodToRun_from_events:
  "e \<in> set (fst (snd (WaitForPodToRun_from i k ns sel w))) \<Longrightarrow>
     (\<exists>r. e = PodsList ns sel r) \<or> e = Sleep (Second * 5)"
proof (induction i k ns sel w rule: WaitForPodToRun_from.induct)
  case (1 i k ns sel w)
  show ?case
  proof (cases "i < 60")
    case False
    with "1.prems" show ?thesis by (simp add: WaitForPodToRun_from.simps [of i])
  next
    case True
    show ?thesis
    proof (cases "case fst (Pods_List k ns sel w) of Inl err \<Rightarrow> None | Inr items \<Rightarrow> find running items")
      case (Some p)
      with True "1.prems" show ?thesis
        by (simp add: WaitForPodToRun_from.simps [of i] Let_def)
    next
      case None
      with True "1.prems" "1.IH" [OF True refl None] show ?thesis
        by (auto simp: WaitForPodToRun_from.simps [of i] Let_def split: prod.splits)
    qed
  qed
qed

lemma find_running: "find running items = Some p \<Longrightarrow> list_ex running items"
  by (auto simp: find_Some_iff list_ex_iff)

lemma WaitForPodToRun_from_result:
  "(\<exists>p. fst (WaitForPodToRun_from i k ns sel w) = Inr p)
     \<and> list_ex (observedRunning ns sel) (fst (snd (WaitForPodToRun_from i k ns sel w)))
   \<or> (\<exists>err. fst (WaitForPodToRun_from i k ns sel w) = Inl err)
     \<and> \<not> list_ex (observedRunning ns sel) (fst (snd (WaitForPodToRun_from i k ns sel w)))"
proof (induction i k ns sel w rule: WaitForPodToRun_from.induct)
  case (1 i k ns sel w)
  show ?case
  proof (cases "i < 60")
    case False
    then show ?thesis by (simp add: WaitForPodToRun_from.simps [of i])
  next
    case True
    show ?thesis
    proof (cases "case fst (Pods_List k ns sel w) of Inl err \<Rightarrow> None | Inr items \<Rightarrow> find running items")
      case (Some p)
      with True show ?thesis
        by (auto simp: WaitForPodToRun_from.simps [of i] Let_def observedRunning_def
                 split: sum.splits dest: find_running)
    next
      case None
      then have "\<not> observedRunning ns sel (PodsList ns sel (fst (Pods_List k ns sel w)))"
        by (auto simp: observedRunning_def list_ex_iff find_None_iff split: sum.splits)
      with None True "1.IH" [OF True refl None] show ?thesis
        by (auto simp: WaitForPodToRun_from.simps [of i] Let_def observedRunning_def split: prod.splits)
    qed
  qed
qed

lemma WaitForPodToRun_from_listStep:
  "list_all listStep (fst (snd (WaitForPodToRun_from i k ns sel w)))"
  unfolding list_all_iff
proof
  fix e
  assume "e \<in> set (fst (snd (WaitForPodToRun_from i k ns sel w)))"
  from WaitForPodToRun_from_events [OF this] show "listStep e"
    by (auto simp: listStep_def)
qed

lemma WaitForPodToRun_lists:
  "list_ex (podListed ns sel) (fst (snd (WaitForPodToRun k ns sel w)))"
  by (simp add: WaitForPodToRun_def WaitForPodToRun_from.simps [of 0] Let_def podListed_def
        split: option.splits prod.splits)

lemma waitForPodDeletion_polls:
  "list_ex podPoll (fst (snd (waitForPodDeletion k ns n w)))"
  by (simp add: waitForPodDeletion_def waitForPodDeletion_from.simps [of 0] Let_def podPoll_def
        split: prod.splits)

lemma WaitForPodToRun_summary:
  "WaitForPodToRun k ns sel w = (r, t, w') \<Longrightarrow>
     list_all listStep t \<and> list_ex (podListed ns sel) t
     \<and> (case r of Inr p \<Rightarrow> list_ex (observedRunning ns sel) t
                 | Inl err \<Rightarrow> \<not> list_ex (observedRunning ns sel) t)"
  using WaitForPodToRun_from_listStep [of 0 k ns sel w] WaitForPodToRun_from_result [of 0 k ns sel w]
    WaitForPodToRun_lists [of ns sel k w]
  by (auto simp: WaitForPodToRun_def split: sum.splits)

lemma waitForPodDeletion_from_polls:
  "list_all (\<lambda>e. podPoll e \<longrightarrow> (\<exists>a. e = PodsGet ns n a)) (fst (snd (waitForPodDeletion_from i k ns n w)))"
  unfolding list_all_iff
proof
  fix e
  assume "e \<in> set (fst (snd (waitForPodDeletion_from i k ns n w)))"
  from waitForPodDeletion_from_events [OF this] show "podPoll e \<longrightarrow> (\<exists>a. e = PodsGet ns n a)"
    by (auto simp: podPoll_def)
qed

lemma waitForPodDeletion_summary:
  "waitForPodDeletion k ns n w = (r, t, w') \<Longrightarrow>
     list_all pollStep t \<and> list_all (\<lambda>e. podPoll e \<longrightarrow> (\<exists>a. e = PodsGet ns n a)) t
     \<and> list_ex podPoll t
     \<and> (case r of None \<Rightarrow> list_ex (podAbsent ns n) t
                 | Some err \<Rightarrow> err = ErrorString (''failed to delete pod '' @ n)
                                \<and> \<not> list_ex (podAbsent ns n) t)"
  using waitForPodDeletion_from_pollStep [of 0 k ns n w] waitForPodDeletion_from_result [of 0 k ns n w]
    waitForPodDeletion_from_polls [of ns n 0 k w] waitForPodDeletion_polls [of k ns n w]
  by (auto simp: waitForPodDeletion_def split: option.splits)

lemma waitForPodDeletion_from_exhausted:
  "\<not> list_ex (podAbsent ns n) (fst (snd (waitForPodDeletion_from i k ns n w))) \<Longrightarrow>
   \<exists>rs. length rs = 60 - i
        \<and> fst (snd (waitForPodDeletion_from i k ns n w))
          = concat (map (\<lambda>r. [PodsGet ns n r, LogInfo ''waiting for pod %q to be deleted\<newline>'' [n],
                               Sleep (Second * 5)]) rs)"
proof (induction i k ns n w rule: waitForPodDeletion_from.induct)
  case (1 i k ns n w)
  show ?case
  proof (cases "i < 60")
    case False
    then show ?thesis by (simp add: waitForPodDeletion_from.simps [of i])
  next
    case True
    show ?thesis
    proof (cases "IsNotFound (err_of (fst (Pods_Get k ns n w)))")
      case absent: True
      with True "1.prems" show ?thesis
        by (simp add: waitForPodDeletion_from.simps [of i] Let_def podAbsent_def)
    next
      case present: False
      let ?w = "snd (Pods_Get k ns n w)"
      have tr: "fst (snd (waitForPodDeletion_from i k ns n w))
                = [PodsGet ns n (fst (Pods_Get k ns n w)),
                   LogInfo ''waiting for pod %q to be deleted\<newline>'' [n], Sleep (Second * 5)]
                  @ fst (snd (waitForPodDeletion_from (i + 1) k ns n ?w))"
        using True present
        by (simp add: waitForPodDeletion_from.simps [of i] Let_def split: prod.splits)
      with "1.prems" have "\<not> list_ex (podAbsent ns n) (fst (snd (waitForPodDeletion_from (i + 1) k ns n ?w)))"
        by simp
      from "1.IH" [OF True refl present this] obtain rs where
        rs: "length rs = 60 - (i + 1)"
        "fst (snd (waitForPodDeletion_from (i + 1) k ns n ?w))
         = concat (map (\<lambda>r. [PodsGet ns n r, LogInfo ''waiting for pod %q to be deleted\<newline>'' [n],
                              Sleep (Second * 5)]) rs)"
        by blast
      have "length (fst (Pods_Get k ns n w) # rs) = 60 - i"
        using rs(1) True by simp
      moreover have "fst (snd (waitForPodDeletion_from i k ns n w))
          = concat (map (\<lambda>r. [PodsGet ns n r, LogInfo ''waiting for pod %q to be deleted\<newline>'' [n],
                               Sleep (Second * 5)]) (fst (Pods_Get k ns n w) # rs))"
        using tr rs(2) by simp
      ultimately show ?thesis by blast
    qed
  qed
qed

subsection \<open>The mutation and the shape of a run\<close>

lemma listStep_facts:
  assumes "list_all listStep t"
  shows "scaleUpdates t = []" "createCalls t = []" "deploymentGets t = []" "podGets t = []"
    "\<not> list_ex (scaleUpdate c) t" "\<not> list_ex (scaleUpdated c) t" "\<not> list_ex createCall t"
    "\<not> list_ex created t" "\<not> list_ex podPoll t" "\<not> list_ex (podAbsent ns n) t"
    "\<not> list_ex failedCall t" "stops_at_failure t"
  using assms
  by (induction t;
      simp add: listStep_def scaleUpdates_def createCalls_def deploymentGets_def podGets_def
        scaleUpdate_def scaleUpdated_def createCall_def created_def podPoll_def podAbsent_def
        failedCall_def split: event.splits)+

lemma pollStep_facts:
  assumes "list_all pollStep t"
  shows "scaleUpdates t = []" "createCalls t = []" "deploymentGets t = []"
    "\<not> list_ex (scaleUpdate c) t" "\<not> list_ex (scaleUpdated c) t" "\<not> list_ex createCall t"
    "\<not> list_ex created t" "\<not> list_ex (observedRunning ns sel) t"
    "\<not> list_ex failedCall t" "stops_at_failure t" "\<not> list_ex (podListed ns sel) t"
  using assms
  by (induction t;
      simp add: pollStep_def scaleUpdates_def createCalls_def deploymentGets_def
        scaleUpdate_def scaleUpdated_def createCall_def created_def observedRunning_def
        failedCall_def podListed_def split: event.splits)+

lemma firstContainer_eq:
  "firstContainer f d =
     (if containers d = [] then Inl (IndexOutOfRange 0 0)
      else Inr (d\<lparr>Deployment.Spec := (Deployment.Spec d)
                  \<lparr>Template := (Template (Deployment.Spec d))
                     \<lparr>PodTemplateSpec.Spec := (PodTemplateSpec.Spec (Template (Deployment.Spec d)))
                        \<lparr>Containers := f (hd (containers d)) # tl (containers d)\<rparr>\<rparr>\<rparr>\<rparr>))"
  by (cases "containers d") (simp_all add: firstContainer_def Let_def)

lemma startDebug_mutate_ok:
  assumes "containers d \<noteq> []" and "Labels (Deployment.ObjectMeta d) = Some m"
  shows "startDebug_mutate d alt =
           (Inr (mutated d alt m, m(''ceph.rook.io/do-not-reconcile'' \<mapsto> ''true'')),
            (if alt \<noteq> '''' then [LogInfo ''setting debug image to %s\<newline>'' [alt]] else [])
            @ [LogInfo ''setting debug command to main container'' []])"
  using assms
  by (simp add: startDebug_mutate_def firstContainer_eq mutated_def debugContainer_def containers_def Let_def)

lemma startDebug_mutate_panic:
  assumes "containers d = [] \<or> Labels (Deployment.ObjectMeta d) = None"
  shows "startDebug_mutate d alt =
           (Inl (if containers d = [] \<and> (alt \<noteq> '''' \<or> Labels (Deployment.ObjectMeta d) \<noteq> None)
                 then IndexOutOfRange 0 0 else AssignmentToEntryInNilMap),
            (if alt \<noteq> '''' then [LogInfo ''setting debug image to %s\<newline>'' [alt]] else []))"
  using assms
  by (cases "Labels (Deployment.ObjectMeta d)")
     (auto simp add: startDebug_mutate_def firstContainer_eq containers_def Let_def)

lemma mutated_simps [simp]:
  "Name (Deployment.ObjectMeta (mutated d alt m)) = Name (Deployment.ObjectMeta d)"
  "PodTemplateSpec.ObjectMeta (Template (Deployment.Spec (mutated d alt m)))
   = PodTemplateSpec.ObjectMeta (Template (Deployment.Spec d))"
  "containers (mutated d alt m) = debugContainer alt (hd (containers d)) # tl (containers d)"
  by (simp_all add: mutated_def containers_def)

lemma SetDeploymentScale_summary:
  "SetDeploymentScale k ns n c w = (r, t, w') \<Longrightarrow>
     \<exists>a. t = [DeploymentsUpdateScale ns n (scaleOf ns n (ucast c)) a]
       \<and> (case a of
            Inl err \<Rightarrow> r = Some (ErrorString (''failed to update scale of deployment '' @ n @ ''. ''
                                              @ Error err @ ''\<newline>''))
          | Inr s \<Rightarrow> r = None)"
  by (auto simp: SetDeploymentScale_def Let_def scaleOf_def split: sum.splits)

lemma startDebug_shape:
  assumes get: "fst (Deployments_Get k ns name w) = Inr d"
    and cs: "containers d \<noteq> []" and lb: "Labels (Deployment.ObjectMeta d) = Some m"
  obtains
    (no_pod) err t3 where
      "fst (startDebug f k ns name alt w) = Return (Some err)"
      "fst (snd (startDebug f k ns name alt w)) = preamble ns name d alt @ t3"
      "list_all listStep t3" "\<not> list_ex (observedRunning ns (selectorOf d)) t3"
      "list_ex (podListed ns (selectorOf d)) t3"
  | (scale_down_failed) err t3 where
      "fst (startDebug f k ns name alt w)
       = Return (Some (ErrorString (''failed to update scale of deployment '' @ Name (Deployment.ObjectMeta d)
                                    @ ''. '' @ Error err @ ''\<newline>'')))"
      "fst (snd (startDebug f k ns name alt w))
       = preamble ns name d alt @ t3
         @ [DeploymentsUpdateScale ns (Name (Deployment.ObjectMeta d))
              (scaleOf ns (Name (Deployment.ObjectMeta d)) 0) (Inl err)]"
      "list_all listStep t3" "list_ex (observedRunning ns (selectorOf d)) t3"
  | (pod_stays) t3 s p t6 where
      "fst (startDebug f k ns name alt w) = Return (Some (ErrorString (''failed to delete pod '' @ name)))"
      "fst (snd (startDebug f k ns name alt w)) = preamble ns name d alt @ t3 @ scaledDown ns d s p @ t6"
      "list_all listStep t3" "list_ex (observedRunning ns (selectorOf d)) t3"
      "list_all pollStep t6" "list_all (\<lambda>e. podPoll e \<longrightarrow> (\<exists>a. e = PodsGet ns name a)) t6"
      "\<not> list_ex (podAbsent ns name) t6" "list_ex podPoll t6"
  | (create_failed) t3 s p t6 err where
      "fst (startDebug f k ns name alt w)
       = Return (Some (ErrorString (''Error creating deployment '' @ f (debugDeploymentOf ns name d alt m)
                                    @ ''. '' @ Error err @ ''\<newline>'')))"
      "fst (snd (startDebug f k ns name alt w))
       = preamble ns name d alt @ t3 @ scaledDown ns d s p @ t6
         @ [DeploymentsCreate ns (debugDeploymentOf ns name d alt m) (Inl err)]"
      "list_all listStep t3" "list_ex (observedRunning ns (selectorOf d)) t3"
      "list_all pollStep t6" "list_all (\<lambda>e. podPoll e \<longrightarrow> (\<exists>a. e = PodsGet ns name a)) t6"
      "list_ex (podAbsent ns name) t6"
  | (scale_up_failed) t3 s p t6 dd err where
      "fst (startDebug f k ns name alt w)
       = Return (Some (ErrorString (''failed to update scale of deployment '' @ Name (Deployment.ObjectMeta dd)
                                    @ ''. '' @ Error err @ ''\<newline>'')))"
      "fst (snd (startDebug f k ns name alt w))
       = preamble ns name d alt @ t3 @ scaledDown ns d s p @ t6
         @ [DeploymentsCreate ns (debugDeploymentOf ns name d alt m) (Inr dd),
            LogInfo ''ensure the debug deployment %s is scaled up\<newline>'' [name],
            DeploymentsUpdateScale ns (Name (Deployment.ObjectMeta dd))
              (scaleOf ns (Name (Deployment.ObjectMeta dd)) 1) (Inl err)]"
      "list_all listStep t3" "list_ex (observedRunning ns (selectorOf d)) t3"
      "list_all pollStep t6" "list_all (\<lambda>e. podPoll e \<longrightarrow> (\<exists>a. e = PodsGet ns name a)) t6"
      "list_ex (podAbsent ns name) t6"
  | (debug_pod_missing) t3 s p t6 dd s' t10 err where
      "fst (startDebug f k ns name alt w) = Fatal err"
      "fst (snd (startDebug f k ns name alt w))
       = preamble ns name d alt @ t3 @ scaledDown ns d s p @ t6
         @ [DeploymentsCreate ns (debugDeploymentOf ns name d alt m) (Inr dd),
            LogInfo ''ensure the debug deployment %s is scaled up\<newline>'' [name],
            DeploymentsUpdateScale ns (Name (Deployment.ObjectMeta dd))
              (scaleOf ns (Name (Deployment.ObjectMeta dd)) 1) (Inr s')]
         @ t10"
      "list_all listStep t3" "list_ex (observedRunning ns (selectorOf d)) t3"
      "list_all pollStep t6" "list_all (\<lambda>e. podPoll e \<longrightarrow> (\<exists>a. e = PodsGet ns name a)) t6"
      "list_ex (podAbsent ns name) t6"
      "list_all listStep t10" "\<not> list_ex (observedRunning ns (selectorOf d)) t10"
      "list_ex (podListed ns (selectorOf d)) t10"
  | (ready) t3 s p t6 dd s' t10 and pod :: Pod where
      "fst (startDebug f k ns name alt w) = Return None"
      "fst (snd (startDebug f k ns name alt w))
       = preamble ns name d alt @ t3 @ scaledDown ns d s p @ t6
         @ [DeploymentsCreate ns (debugDeploymentOf ns name d alt m) (Inr dd),
            LogInfo ''ensure the debug deployment %s is scaled up\<newline>'' [name],
            DeploymentsUpdateScale ns (Name (Deployment.ObjectMeta dd))
              (scaleOf ns (Name (Deployment.ObjectMeta dd)) 1) (Inr s')]
         @ t10 @ [LogInfo ''pod %s is ready for debugging'' [Name (Pod.ObjectMeta pod)]]"
      "list_all listStep t3" "list_ex (observedRunning ns (selectorOf d)) t3"
      "list_all pollStep t6" "list_all (\<lambda>e. podPoll e \<longrightarrow> (\<exists>a. e = PodsGet ns name a)) t6"
      "list_ex (podAbsent ns name) t6"
      "list_all listStep t10" "list_ex (observedRunning ns (selectorOf d)) t10"
proof -
  obtain w1 where G: "Deployments_Get k ns name w = (Inr d, w1)"
    using get by (cases "Deployments_Get k ns name w") simp
  note M = startDebug_mutate_ok [OF cs lb, of alt]
  let ?sel = "selectorOf d"
  let ?dbg = "debugDeploymentOf ns name d alt m"
  let ?n = "Name (Deployment.ObjectMeta d)"
  obtain r3 t3 w3 where W1: "WaitForPodToRun k ns ?sel w1 = (r3, t3, w3)"
    by (cases "WaitForPodToRun k ns ?sel w1")
  note S3 = WaitForPodToRun_summary [OF W1]
  show thesis
  proof (cases r3)
    case (Inl err)
    have "startDebug f k ns name alt w = (Return (Some err), preamble ns name d alt @ t3, w3)"
      using W1 [unfolded selectorOf_def] Inl
      by (simp add: startDebug_def GetDeployment_def G M Let_def preamble_def)
    then show thesis using no_pod [of err t3] S3 Inl by simp
  next
    case p: (Inr p)
    note obs3 = S3 [unfolded p, simplified]
    obtain r4 t4 w4 where U0: "SetDeploymentScale k ns ?n 0 w3 = (r4, t4, w4)"
      by (cases "SetDeploymentScale k ns ?n 0 w3")
    from SetDeploymentScale_summary [OF U0] obtain a4 where
      t4: "t4 = [DeploymentsUpdateScale ns ?n (scaleOf ns ?n 0) a4]" and
      r4: "case a4 of
             Inl err \<Rightarrow> r4 = Some (ErrorString (''failed to update scale of deployment '' @ ?n @ ''. ''
                                                @ Error err @ ''\<newline>''))
           | Inr s \<Rightarrow> r4 = None"
      by auto
    show thesis
    proof (cases a4)
      case (Inl err)
      have "startDebug f k ns name alt w =
              (Return (Some (ErrorString (''failed to update scale of deployment '' @ ?n @ ''. ''
                                          @ Error err @ ''\<newline>''))),
               preamble ns name d alt @ t3 @ t4, w4)"
        using W1 [unfolded selectorOf_def] p U0 r4 Inl
        by (simp add: startDebug_def GetDeployment_def G M Let_def preamble_def)
      then show thesis using scale_down_failed [of err t3] obs3 t4 Inl by simp
    next
      case s: (Inr s)
      then have r4n: "r4 = None" using r4 by simp
      obtain r6 t6 w6 where D: "waitForPodDeletion k ns name w4 = (r6, t6, w6)"
        by (cases "waitForPodDeletion k ns name w4")
      note S6 = waitForPodDeletion_summary [OF D]
      have down: "t4 @ [LogInfo ''deployment %s scaled down\<newline>'' [?n],
                        LogInfo ''waiting for the deployment pod %s to be deleted\<newline>''
                          [Name (Pod.ObjectMeta p)]] = scaledDown ns d s p"
        using t4 s by (simp add: scaledDown_def)
      show thesis
      proof (cases r6)
        case (Some e)
        have "startDebug f k ns name alt w =
                (Return (Some e),
                 preamble ns name d alt @ t3
                 @ (t4 @ [LogInfo ''deployment %s scaled down\<newline>'' [?n],
                          LogInfo ''waiting for the deployment pod %s to be deleted\<newline>''
                            [Name (Pod.ObjectMeta p)]]) @ t6, w6)"
          using W1 [unfolded selectorOf_def] p U0 r4n D Some
          by (simp add: startDebug_def GetDeployment_def G M Let_def preamble_def)
        then show thesis using pod_stays [of t3 s p t6] obs3 S6 Some unfolding down by simp
      next
        case None
        note S6' = S6 [unfolded None, simplified]
        obtain a7 w7 where C: "Deployments_Create k ns ?dbg w6 = (a7, w7)"
          by (cases "Deployments_Create k ns ?dbg w6")
        show thesis
        proof (cases a7)
          case (Inl err)
          have "startDebug f k ns name alt w =
                  (Return (Some (ErrorString (''Error creating deployment '' @ f ?dbg @ ''. ''
                                              @ Error err @ ''\<newline>''))),
                   preamble ns name d alt @ t3
                   @ (t4 @ [LogInfo ''deployment %s scaled down\<newline>'' [?n],
                            LogInfo ''waiting for the deployment pod %s to be deleted\<newline>''
                              [Name (Pod.ObjectMeta p)]]) @ t6
                   @ [DeploymentsCreate ns ?dbg (Inl err)], w7)"
            using W1 [unfolded selectorOf_def] p U0 r4n D None C [unfolded debugDeploymentOf_def] Inl
            by (simp add: startDebug_def GetDeployment_def G M Let_def preamble_def debugDeploymentOf_def)
          then show thesis using create_failed [of err t3 s p t6] obs3 S6' unfolding down by simp
        next
          case dd: (Inr dd)
          let ?n' = "Name (Deployment.ObjectMeta dd)"
          obtain r9 t9 w9 where U1: "SetDeploymentScale k ns ?n' 1 w7 = (r9, t9, w9)"
            by (cases "SetDeploymentScale k ns ?n' 1 w7")
          from SetDeploymentScale_summary [OF U1] obtain a9 where
            t9: "t9 = [DeploymentsUpdateScale ns ?n' (scaleOf ns ?n' 1) a9]" and
            r9: "case a9 of
                   Inl err \<Rightarrow> r9 = Some (ErrorString (''failed to update scale of deployment '' @ ?n' @ ''. ''
                                                      @ Error err @ ''\<newline>''))
                 | Inr s \<Rightarrow> r9 = None"
            by auto
          show thesis
          proof (cases a9)
            case (Inl err)
            have "startDebug f k ns name alt w =
                    (Return (Some (ErrorString (''failed to update scale of deployment '' @ ?n' @ ''. ''
                                                @ Error err @ ''\<newline>''))),
                     preamble ns name d alt @ t3
                     @ (t4 @ [LogInfo ''deployment %s scaled down\<newline>'' [?n],
                              LogInfo ''waiting for the deployment pod %s to be deleted\<newline>''
                                [Name (Pod.ObjectMeta p)]]) @ t6
                     @ [DeploymentsCreate ns ?dbg (Inr dd),
                        LogInfo ''ensure the debug deployment %s is scaled up\<newline>'' [name]] @ t9, w9)"
              using W1 [unfolded selectorOf_def] p U0 r4n D None C [unfolded debugDeploymentOf_def] dd U1 r9 Inl
              by (simp add: startDebug_def GetDeployment_def G M Let_def preamble_def debugDeploymentOf_def)
            then show thesis using scale_up_failed [of dd err t3 s p t6] obs3 S6' t9 Inl unfolding down by simp
          next
            case s': (Inr s')
            then have r9n: "r9 = None" using r9 by simp
            obtain r10 t10 w10 where W2: "WaitForPodToRun k ns ?sel w9 = (r10, t10, w10)"
              by (cases "WaitForPodToRun k ns ?sel w9")
            note S10 = WaitForPodToRun_summary [OF W2]
            show thesis
            proof (cases r10)
              case (Inl err)
              have "startDebug f k ns name alt w =
                      (Fatal err,
                       preamble ns name d alt @ t3
                       @ (t4 @ [LogInfo ''deployment %s scaled down\<newline>'' [?n],
                                LogInfo ''waiting for the deployment pod %s to be deleted\<newline>''
                                  [Name (Pod.ObjectMeta p)]]) @ t6
                       @ [DeploymentsCreate ns ?dbg (Inr dd),
                          LogInfo ''ensure the debug deployment %s is scaled up\<newline>'' [name]] @ t9
                       @ t10, w10)"
                using W1 [unfolded selectorOf_def] p U0 r4n D None C [unfolded debugDeploymentOf_def] dd U1 r9n
                  W2 [unfolded selectorOf_def] Inl
                by (simp add: startDebug_def GetDeployment_def G M Let_def preamble_def debugDeploymentOf_def)
              then show thesis
                using debug_pod_missing [of err t3 s p t6 dd s' t10] obs3 S6' S10 t9 s' Inl
                unfolding down by simp
            next
              case (Inr pod)
              have "startDebug f k ns name alt w =
                      (Return None,
                       preamble ns name d alt @ t3
                       @ (t4 @ [LogInfo ''deployment %s scaled down\<newline>'' [?n],
                                LogInfo ''waiting for the deployment pod %s to be deleted\<newline>''
                                  [Name (Pod.ObjectMeta p)]]) @ t6
                       @ [DeploymentsCreate ns ?dbg (Inr dd),
                          LogInfo ''ensure the debug deployment %s is scaled up\<newline>'' [name]] @ t9
                       @ t10 @ [LogInfo ''pod %s is ready for debugging'' [Name (Pod.ObjectMeta pod)]], w10)"
                using W1 [unfolded selectorOf_def] p U0 r4n D None C [unfolded debugDeploymentOf_def] dd U1 r9n
                  W2 [unfolded selectorOf_def] Inr
                by (simp add: startDebug_def GetDeployment_def G M Let_def preamble_def debugDeploymentOf_def)
              then show thesis
                using ready [of t3 s p t6 dd s' t10 pod] obs3 S6' S10 t9 s' Inr
                unfolding down by simp
            qed
          qed
        qed
      qed
    qed
  qed
qed


subsection \<open>Reading the runs of \<open>startDebug\<close>\<close>

lemma scaleUpdates_simps [simp]:
  "scaleUpdates [] = []"
  "scaleUpdates (xs @ ys) = scaleUpdates xs @ scaleUpdates ys"
  "scaleUpdates (DeploymentsUpdateScale ns n s a # es) = (ns, n, ScaleSpec.Replicas (Scale.Spec s)) # scaleUpdates es"
  "scaleUpdates (LogInfo fm args # es) = scaleUpdates es"
  "scaleUpdates (Sleep t # es) = scaleUpdates es"
  "scaleUpdates (DeploymentsGet ns n g # es) = scaleUpdates es"
  "scaleUpdates (DeploymentsCreate ns d c # es) = scaleUpdates es"
  "scaleUpdates (PodsGet ns n pg # es) = scaleUpdates es"
  "scaleUpdates (PodsList ns sel pl # es) = scaleUpdates es"
  by (simp_all add: scaleUpdates_def)

lemma createCalls_simps [simp]:
  "createCalls [] = []"
  "createCalls (xs @ ys) = createCalls xs @ createCalls ys"
  "createCalls (DeploymentsCreate ns d c # es) = (ns, d) # createCalls es"
  "createCalls (LogInfo fm args # es) = createCalls es"
  "createCalls (Sleep t # es) = createCalls es"
  "createCalls (DeploymentsGet ns n g # es) = createCalls es"
  "createCalls (DeploymentsUpdateScale ns n s a # es) = createCalls es"
  "createCalls (PodsGet ns n pg # es) = createCalls es"
  "createCalls (PodsList ns sel pl # es) = createCalls es"
  by (simp_all add: createCalls_def)

lemma deploymentGets_simps [simp]:
  "deploymentGets [] = []"
  "deploymentGets (xs @ ys) = deploymentGets xs @ deploymentGets ys"
  "deploymentGets (DeploymentsGet ns n g # es) = (ns, n) # deploymentGets es"
  "deploymentGets (LogInfo fm args # es) = deploymentGets es"
  "deploymentGets (Sleep t # es) = deploymentGets es"
  "deploymentGets (DeploymentsCreate ns d c # es) = deploymentGets es"
  "deploymentGets (DeploymentsUpdateScale ns n s a # es) = deploymentGets es"
  "deploymentGets (PodsGet ns n pg # es) = deploymentGets es"
  "deploymentGets (PodsList ns sel pl # es) = deploymentGets es"
  by (simp_all add: deploymentGets_def)

lemma podGets_simps [simp]:
  "podGets [] = []"
  "podGets (xs @ ys) = podGets xs @ podGets ys"
  "podGets (PodsGet ns n pg # es) = (ns, n) # podGets es"
  "podGets (LogInfo fm args # es) = podGets es"
  "podGets (Sleep t # es) = podGets es"
  "podGets (DeploymentsGet ns n g # es) = podGets es"
  "podGets (DeploymentsCreate ns d c # es) = podGets es"
  "podGets (DeploymentsUpdateScale ns n s a # es) = podGets es"
  "podGets (PodsList ns sel pl # es) = podGets es"
  by (simp_all add: podGets_def)

lemma event_predicates [simp]:
  "scaleUpdate c (DeploymentsUpdateScale ns n s a) = (ScaleSpec.Replicas (Scale.Spec s) = c)"
  "scaleUpdate c (LogInfo fm args) = False" "scaleUpdate c (Sleep t) = False"
  "scaleUpdate c (DeploymentsGet ns n g) = False" "scaleUpdate c (DeploymentsCreate ns d cr) = False"
  "scaleUpdate c (PodsGet ns n pg) = False" "scaleUpdate c (PodsList ns sel pl) = False"
  "scaleUpdated c (DeploymentsUpdateScale ns n s (Inr s')) = (ScaleSpec.Replicas (Scale.Spec s) = c)"
  "scaleUpdated c (DeploymentsUpdateScale ns n s (Inl err)) = False"
  "scaleUpdated c (LogInfo fm args) = False" "scaleUpdated c (Sleep t) = False"
  "scaleUpdated c (DeploymentsGet ns n g) = False" "scaleUpdated c (DeploymentsCreate ns d cr) = False"
  "scaleUpdated c (PodsGet ns n pg) = False" "scaleUpdated c (PodsList ns sel pl) = False"
  "createCall (DeploymentsCreate ns d cr) = True"
  "createCall (LogInfo fm args) = False" "createCall (Sleep t) = False"
  "createCall (DeploymentsGet ns n g) = False" "createCall (DeploymentsUpdateScale ns n s a) = False"
  "createCall (PodsGet ns n pg) = False" "createCall (PodsList ns sel pl) = False"
  "created (DeploymentsCreate ns d (Inr d')) = True" "created (DeploymentsCreate ns d (Inl err)) = False"
  "created (LogInfo fm args) = False" "created (Sleep t) = False"
  "created (DeploymentsGet ns n g) = False" "created (DeploymentsUpdateScale ns n s a) = False"
  "created (PodsGet ns n pg) = False" "created (PodsList ns sel pl) = False"
  "podPoll (PodsGet ns n pg) = True"
  "podPoll (LogInfo fm args) = False" "podPoll (Sleep t) = False"
  "podPoll (DeploymentsGet ns n g) = False" "podPoll (DeploymentsUpdateScale ns n s a) = False"
  "podPoll (DeploymentsCreate ns d cr) = False" "podPoll (PodsList ns sel pl) = False"
  "observedRunning ns0 sel0 (LogInfo fm args) = False" "observedRunning ns0 sel0 (Sleep t) = False"
  "observedRunning ns0 sel0 (DeploymentsGet ns n g) = False"
  "observedRunning ns0 sel0 (DeploymentsUpdateScale ns n s a) = False"
  "observedRunning ns0 sel0 (DeploymentsCreate ns d cr) = False"
  "observedRunning ns0 sel0 (PodsGet ns n pg) = False"
  "podAbsent ns0 n0 (LogInfo fm args) = False" "podAbsent ns0 n0 (Sleep t) = False"
  "podAbsent ns0 n0 (DeploymentsGet ns n g) = False"
  "podAbsent ns0 n0 (DeploymentsUpdateScale ns n s a) = False"
  "podAbsent ns0 n0 (DeploymentsCreate ns d cr) = False"
  "podAbsent ns0 n0 (PodsList ns sel pl) = False"
  "failedCall (DeploymentsGet ns n (Inl err)) = True" "failedCall (DeploymentsGet ns n (Inr d)) = False"
  "failedCall (DeploymentsUpdateScale ns n s (Inl err)) = True"
  "failedCall (DeploymentsUpdateScale ns n s (Inr s')) = False"
  "failedCall (DeploymentsCreate ns d (Inl err)) = True" "failedCall (DeploymentsCreate ns d (Inr d')) = False"
  "failedCall (LogInfo fm args) = False" "failedCall (Sleep t) = False"
  "failedCall (PodsGet ns n pg) = False" "failedCall (PodsList ns sel pl) = False"
  by (simp_all add: scaleUpdate_def scaleUpdated_def createCall_def created_def podPoll_def
        observedRunning_def podAbsent_def failedCall_def)

lemma podListed_simps [simp]:
  "podListed ns0 sel0 (PodsList ns sel pl) = (ns = ns0 \<and> sel = sel0)"
  "podListed ns0 sel0 (LogInfo fm args) = False" "podListed ns0 sel0 (Sleep t) = False"
  "podListed ns0 sel0 (DeploymentsGet ns n g) = False"
  "podListed ns0 sel0 (DeploymentsUpdateScale ns n s a) = False"
  "podListed ns0 sel0 (DeploymentsCreate ns d cr) = False"
  "podListed ns0 sel0 (PodsGet ns n pg) = False"
  by (simp_all add: podListed_def)



lemma listStep_no_create:
  "list_all listStep t \<Longrightarrow> DeploymentsCreate ns d r \<notin> set t"
  by (auto simp: list_all_iff listStep_def)

lemma pollStep_no_create:
  "list_all pollStep t \<Longrightarrow> DeploymentsCreate ns d r \<notin> set t"
  by (auto simp: list_all_iff pollStep_def)

lemma pollStep_podGets:
  "list_all (\<lambda>e. podPoll e \<longrightarrow> (\<exists>a. e = PodsGet ns n a)) t \<Longrightarrow> set (podGets t) \<subseteq> {(ns, n)}"
  by (induction t) (auto simp: podGets_def split: event.splits)

lemma startDebug_panic:
  assumes get: "fst (Deployments_Get k ns name w) = Inr d"
    and bad: "containers d = [] \<or> Labels (Deployment.ObjectMeta d) = None"
  shows "startDebug f k ns name alt w =
           (Panic (if containers d = [] \<and> (alt \<noteq> '''' \<or> Labels (Deployment.ObjectMeta d) \<noteq> None)
                   then IndexOutOfRange 0 0 else AssignmentToEntryInNilMap),
            [LogInfo ''fetching the deployment %s to be running\<newline>'' [name],
             DeploymentsGet ns name (Inr d),
             LogInfo ''deployment %s exists\<newline>'' [name]]
            @ (if alt \<noteq> '''' then [LogInfo ''setting debug image to %s\<newline>'' [alt]] else []),
            snd (Deployments_Get k ns name w))"
  using get by (simp add: startDebug_def GetDeployment_def Let_def startDebug_mutate_panic [OF bad])

lemma startDebug_missing:
  assumes get: "fst (Deployments_Get k ns name w) = Inl err"
  shows "startDebug f k ns name alt w =
           (Return (Some (ErrorString (''Missing mon or osd deployment name '' @ name @ ''. ''
                                       @ Error err @ ''\<newline>''))),
            [LogInfo ''fetching the deployment %s to be running\<newline>'' [name],
             DeploymentsGet ns name (Inl err)],
            snd (Deployments_Get k ns name w))"
  using get by (simp add: startDebug_def GetDeployment_def Let_def)

lemma debugDeploymentOf_simps [simp]:
  "Name (Deployment.ObjectMeta (debugDeploymentOf ns name d alt m)) = name @ ''-debug''"
  "Namespace (Deployment.ObjectMeta (debugDeploymentOf ns name d alt m)) = ns"
  "Labels (Deployment.ObjectMeta (debugDeploymentOf ns name d alt m))
   = Some (m(''ceph.rook.io/do-not-reconcile'' \<mapsto> ''true''))"
  "containers (debugDeploymentOf ns name d alt m) = debugContainer alt (hd (containers d)) # tl (containers d)"
  "PodTemplateSpec.ObjectMeta (Template (Deployment.Spec (debugDeploymentOf ns name d alt m)))
   = PodTemplateSpec.ObjectMeta (Template (Deployment.Spec d))"
  by (simp_all add: debugDeploymentOf_def mutated_def containers_def)

lemma startDebug_createCalls:
  assumes get: "fst (Deployments_Get k ns name w) = Inr d"
    and cs: "containers d \<noteq> []" and lb: "Labels (Deployment.ObjectMeta d) = Some m"
  shows "createCalls (fst (snd (startDebug f k ns name alt w)))
         = (if list_ex (podAbsent ns name) (fst (snd (startDebug f k ns name alt w)))
            then [(ns, debugDeploymentOf ns name d alt m)] else [])"
    and "fst (startDebug f k ns name alt w) = Return None \<Longrightarrow>
           list_ex (podAbsent ns name) (fst (snd (startDebug f k ns name alt w)))"
  by (rule startDebug_shape [OF get cs lb, of f alt];
      simp add: preamble_def scaledDown_def scaleOf_def listStep_facts pollStep_facts)+

lemma startDebug_createCalls_panic:
  assumes get: "fst (Deployments_Get k ns name w) = Inr d"
    and bad: "containers d = [] \<or> Labels (Deployment.ObjectMeta d) = None"
  shows "createCalls (fst (snd (startDebug f k ns name alt w))) = []"
  by (simp add: startDebug_panic [OF get bad])


lemma waitForPodDeletion_from_never_absent:
  "(\<forall>w. I w \<longrightarrow> \<not> IsNotFound (err_of (fst (Pods_Get k ns n w))) \<and> I (snd (Pods_Get k ns n w)))
   \<Longrightarrow> I w \<Longrightarrow> \<not> list_ex (podAbsent ns n) (fst (snd (waitForPodDeletion_from i k ns n w)))"
proof (induction i k ns n w rule: waitForPodDeletion_from.induct)
  case (1 i k ns n w)
  show ?case
  proof (cases "i < 60")
    case False
    then show ?thesis by (simp add: waitForPodDeletion_from.simps [of i])
  next
    case True
    from "1.prems" have present: "\<not> IsNotFound (err_of (fst (Pods_Get k ns n w)))"
      and later: "I (snd (Pods_Get k ns n w))"
      by auto
    have "\<not> podAbsent ns n (PodsGet ns n (fst (Pods_Get k ns n w)))"
      using present by (simp add: podAbsent_def)
    with "1.IH" [OF True refl present "1.prems"(1) later] True present show ?thesis
      by (auto simp: waitForPodDeletion_from.simps [of i] Let_def split: prod.splits)
  qed
qed


lemma startDebug_podGets:
  "set (podGets (fst (snd (startDebug f k ns name alt w)))) \<subseteq> {(ns, name)}"
proof (cases "fst (Deployments_Get k ns name w)")
  case (Inl err)
  then show ?thesis by (simp add: startDebug_missing)
next
  case get: (Inr d)
  show ?thesis
  proof (cases "containers d = [] \<or> Labels (Deployment.ObjectMeta d) = None")
    case True
    show ?thesis by (simp add: startDebug_panic [OF get True])
  next
    case False
    then obtain m where cs: "containers d \<noteq> []" and lb: "Labels (Deployment.ObjectMeta d) = Some m"
      by auto
    show ?thesis
      by (rule startDebug_shape [OF get cs lb, of f alt])
         (use pollStep_podGets in \<open>simp_all add: preamble_def scaledDown_def listStep_facts\<close>)
  qed
qed

subsection \<open>The runs on the small cluster\<close>

lemmas run_defs =
  startDebug_def GetDeployment_def startDebug_mutate_def firstContainer_def containers_def
  WaitForPodToRun_def WaitForPodToRun_from.simps waitForPodDeletion_def waitForPodDeletion_from.simps
  SetDeploymentScale_def labelSelector_of_def index_labels_def running_def err_of_def Let_def
  cluster_client_def osd_cluster_def osd_deployment_def osd_pod_def osd_labels_def osd_label_map_def
  osd_container_def log_container_def osd_probe_def named_def notFound_def deployment_text_def
  osd_deployment_down_def osd_debug_deployment_def debugged_cluster_def stale_cluster_def
  bare_deployment_def bare_cluster_def run_prefix_def first_run_trace_def already_exists_def
  refused_run_trace_def osd_debug_deployment_down_def scaleOf_def

lemma first_run:
  "startDebug deployment_text cluster_client ''rook-ceph'' ''rook-ceph-osd-0'' ''quay.io/ceph/ceph:debug''
     osd_cluster
   = (Return None, first_run_trace, debugged_cluster)"
  by (simp add: run_defs)

lemma second_run:
  "startDebug deployment_text cluster_client ''rook-ceph'' ''rook-ceph-osd-0'' ''quay.io/ceph/ceph:debug''
     debugged_cluster
   = (Return (Some (ErrorString
        ''Error creating deployment &Deployment{rook-ceph-osd-0-debug}. rook-ceph-osd-0-debug already exists\<newline>'')),
      refused_run_trace osd_deployment_down osd_debug_deployment_down, debugged_cluster)"
  by (simp add: run_defs)


lemma bare_run:
  "fst (startDebug deployment_text cluster_client ''rook-ceph'' ''rook-ceph-osd-0'' ''quay.io/ceph/ceph:debug''
          bare_cluster) = Panic (IndexOutOfRange 0 0)"
  "fst (startDebug deployment_text cluster_client ''rook-ceph'' ''rook-ceph-osd-0'' '''' bare_cluster)
   = Panic AssignmentToEntryInNilMap"
  by (simp_all add: run_defs)

lemma cluster_gets:
  "fst (Deployments_Get cluster_client ''rook-ceph'' ''rook-ceph-osd-0'' osd_cluster) = Inr osd_deployment"
  "fst (Deployments_Get cluster_client ''rook-ceph'' ''rook-ceph-osd-0'' debugged_cluster) = Inr osd_deployment_down"
  "fst (Deployments_Get cluster_client ''rook-ceph'' ''rook-ceph-osd-0'' stale_cluster) = Inr osd_deployment"
  "fst (Deployments_Get cluster_client ''rook-ceph'' ''rook-ceph-osd-0'' bare_cluster) = Inr bare_deployment"
  by (simp_all add: run_defs)

lemma plain_run_creates:
  "map (map Image \<circ> containers \<circ> snd)
     (createCalls (fst (snd (startDebug deployment_text cluster_client ''rook-ceph'' ''rook-ceph-osd-0'' ''''
        osd_cluster))))
   = [[''quay.io/ceph/ceph:v17'', ''quay.io/ceph/ceph:v17'']]"
  by (simp add: run_defs)

subsection \<open>The claims\<close>

text \<open>
  C1 (amended). For every deployment with container image X and a non-empty alternate
  image argument Y, a create call of the debug workflow is for a sibling deployment named
  \<open><name>-debug\<close> in the same namespace whose first container has image Y, the command
  \<open>["sleep", "infinity"]\<close>, empty args, and no liveness and no startup probe; the
  readiness probe of that container is the one of the fetched deployment. The workflow
  issues that one create call, and only in a run whose deletion wait has succeeded.
\<close>

theorem startDebug_debug_deployment:
  assumes get: "fst (Deployments_Get k ns name w) = Inr d"
    and alt: "alt \<noteq> ''''"
    and call: "(ns', dd) \<in> set (createCalls (fst (snd (startDebug f k ns name alt w))))"
  shows "ns' = ns \<and> Name (Deployment.ObjectMeta dd) = name @ ''-debug''
       \<and> Namespace (Deployment.ObjectMeta dd) = ns
       \<and> containers dd \<noteq> []
       \<and> Image (hd (containers dd)) = alt
       \<and> Command (hd (containers dd)) = [''sleep'', ''infinity'']
       \<and> Args (hd (containers dd)) = []
       \<and> LivenessProbe (hd (containers dd)) = None
       \<and> StartupProbe (hd (containers dd)) = None
       \<and> ReadinessProbe (hd (containers dd)) = ReadinessProbe (hd (containers d))
       \<and> createCalls (fst (snd (startDebug f k ns name alt w))) = [(ns, dd)]
       \<and> list_ex (podAbsent ns name) (fst (snd (startDebug f k ns name alt w)))"
proof (cases "containers d = [] \<or> Labels (Deployment.ObjectMeta d) = None")
  case True
  from call startDebug_createCalls_panic [OF get True, of f alt] show ?thesis by simp
next
  case False
  then obtain m where cs: "containers d \<noteq> []" and lb: "Labels (Deployment.ObjectMeta d) = Some m"
    by auto
  from call startDebug_createCalls(1) [OF get cs lb, of f alt] alt show ?thesis
    by (auto simp: debugContainer_def split: if_splits)
qed

theorem startDebug_debug_deployment_witness:
  "fst (Deployments_Get cluster_client ''rook-ceph'' ''rook-ceph-osd-0'' osd_cluster) = Inr osd_deployment
   \<and> createCalls (fst (snd (startDebug deployment_text cluster_client ''rook-ceph'' ''rook-ceph-osd-0''
        ''quay.io/ceph/ceph:debug'' osd_cluster))) = [(''rook-ceph'', osd_debug_deployment)]
   \<and> Name (Deployment.ObjectMeta osd_debug_deployment) = ''rook-ceph-osd-0-debug''
   \<and> Namespace (Deployment.ObjectMeta osd_debug_deployment) = ''rook-ceph''
   \<and> Image (hd (containers osd_debug_deployment)) = ''quay.io/ceph/ceph:debug''
   \<and> Command (hd (containers osd_debug_deployment)) = [''sleep'', ''infinity'']
   \<and> Args (hd (containers osd_debug_deployment)) = []
   \<and> LivenessProbe (hd (containers osd_debug_deployment)) = None
   \<and> StartupProbe (hd (containers osd_debug_deployment)) = None
   \<and> ReadinessProbe (hd (containers osd_debug_deployment)) = ReadinessProbe (hd (containers osd_deployment))"
proof -
  have call: "(''rook-ceph'', osd_debug_deployment)
              \<in> set (createCalls (fst (snd (startDebug deployment_text cluster_client ''rook-ceph''
                    ''rook-ceph-osd-0'' ''quay.io/ceph/ceph:debug'' osd_cluster))))"
    by (simp add: first_run first_run_trace_def run_prefix_def)
  have alt: "''quay.io/ceph/ceph:debug'' \<noteq> ''''" by simp
  from startDebug_debug_deployment [OF cluster_gets(1) alt call] cluster_gets(1)
  show ?thesis by simp
qed

text \<open>
  C1 as stated fails on the readiness probe: the first container of the deployment that
  the first run on the small cluster creates still has the readiness probe of the original.
\<close>

theorem startDebug_debug_deployment_counterexample:
  "fst (startDebug deployment_text cluster_client ''rook-ceph'' ''rook-ceph-osd-0''
          ''quay.io/ceph/ceph:debug'' osd_cluster) = Return None
   \<and> map (Name \<circ> Deployment.ObjectMeta \<circ> snd)
        (createCalls (fst (snd (startDebug deployment_text cluster_client ''rook-ceph'' ''rook-ceph-osd-0''
           ''quay.io/ceph/ceph:debug'' osd_cluster)))) = [''rook-ceph-osd-0-debug'']
   \<and> map (ReadinessProbe \<circ> hd \<circ> containers \<circ> snd)
        (createCalls (fst (snd (startDebug deployment_text cluster_client ''rook-ceph'' ''rook-ceph-osd-0''
           ''quay.io/ceph/ceph:debug'' osd_cluster))))
      = [Some \<lparr>InitialDelaySeconds = 10, PeriodSeconds = 10\<rparr>]
   \<and> map (ReadinessProbe \<circ> hd \<circ> containers \<circ> snd)
        (createCalls (fst (snd (startDebug deployment_text cluster_client ''rook-ceph'' ''rook-ceph-osd-0''
           ''quay.io/ceph/ceph:debug'' osd_cluster))))
      \<noteq> [None]"
  by (simp add: first_run first_run_trace_def run_prefix_def osd_debug_deployment_def containers_def
        osd_probe_def)

text \<open>
  C2. The claim is that the deletion wait of step 5 waits for the pod found in step 3.
  The code logs the name of that pod (line 76) and then polls a pod named after the
  deployment (line 78): on the small cluster the workflow announces the wait for
  \<open>rook-ceph-osd-0-7d9f-x2x4q\<close>, asks once for the pod \<open>rook-ceph-osd-0\<close>, which does not
  exist, and creates the debug deployment while the pod of step 3 is still there.
\<close>

theorem startDebug_polls_deployment_name:
  "fst (startDebug deployment_text cluster_client ''rook-ceph'' ''rook-ceph-osd-0''
          ''quay.io/ceph/ceph:debug'' osd_cluster) = Return None
   \<and> LogInfo ''waiting for the deployment pod %s to be deleted\<newline>'' [''rook-ceph-osd-0-7d9f-x2x4q'']
       \<in> set (fst (snd (startDebug deployment_text cluster_client ''rook-ceph'' ''rook-ceph-osd-0''
             ''quay.io/ceph/ceph:debug'' osd_cluster)))
   \<and> podGets (fst (snd (startDebug deployment_text cluster_client ''rook-ceph'' ''rook-ceph-osd-0''
        ''quay.io/ceph/ceph:debug'' osd_cluster))) = [(''rook-ceph'', ''rook-ceph-osd-0'')]
   \<and> map (Name \<circ> Deployment.ObjectMeta \<circ> snd)
        (createCalls (fst (snd (startDebug deployment_text cluster_client ''rook-ceph'' ''rook-ceph-osd-0''
           ''quay.io/ceph/ceph:debug'' osd_cluster)))) = [''rook-ceph-osd-0-debug'']
   \<and> map (Name \<circ> Pod.ObjectMeta)
        (pods (snd (snd (startDebug deployment_text cluster_client ''rook-ceph'' ''rook-ceph-osd-0''
           ''quay.io/ceph/ceph:debug'' osd_cluster)))) = [''rook-ceph-osd-0-7d9f-x2x4q'']"
  by (simp add: first_run first_run_trace_def run_prefix_def osd_debug_deployment_def
        debugged_cluster_def osd_pod_def)

text \<open>
  C3. When the deployment cannot be fetched (the name does not exist in the namespace),
  the debug workflow returns an error whose message names the deployment; the get is the
  only call it has made, so it issues no scale update and no create call.
\<close>

theorem startDebug_missing_deployment:
  assumes "fst (Deployments_Get k ns name w) = Inl err"
  shows "fst (startDebug f k ns name alt w)
         = Return (Some (ErrorString (''Missing mon or osd deployment name '' @ name @ ''. ''
                                      @ Error err @ ''\<newline>'')))
       \<and> fst (snd (startDebug f k ns name alt w))
         = [LogInfo ''fetching the deployment %s to be running\<newline>'' [name],
            DeploymentsGet ns name (Inl err)]
       \<and> scaleUpdates (fst (snd (startDebug f k ns name alt w))) = []
       \<and> createCalls (fst (snd (startDebug f k ns name alt w))) = []"
  by (simp add: startDebug_missing [OF assms])

theorem startDebug_missing_deployment_witness:
  "fst (Deployments_Get cluster_client ''rook-ceph'' ''rook-ceph-osd-9'' osd_cluster)
     = Inl (StatusError StatusReasonNotFound ''rook-ceph-osd-9 not found'')
   \<and> fst (startDebug deployment_text cluster_client ''rook-ceph'' ''rook-ceph-osd-9'' ''quay.io/ceph/ceph:debug'' osd_cluster)
     = Return (Some (ErrorString
         ''Missing mon or osd deployment name rook-ceph-osd-9. rook-ceph-osd-9 not found\<newline>''))
   \<and> scaleUpdates (fst (snd (startDebug deployment_text cluster_client ''rook-ceph'' ''rook-ceph-osd-9''
        ''quay.io/ceph/ceph:debug'' osd_cluster))) = []
   \<and> createCalls (fst (snd (startDebug deployment_text cluster_client ''rook-ceph'' ''rook-ceph-osd-9''
        ''quay.io/ceph/ceph:debug'' osd_cluster))) = []"
proof -
  have get: "fst (Deployments_Get cluster_client ''rook-ceph'' ''rook-ceph-osd-9'' osd_cluster)
             = Inl (StatusError StatusReasonNotFound ''rook-ceph-osd-9 not found'')"
    by (simp add: cluster_client_def osd_cluster_def osd_deployment_def named_def notFound_def)
  from startDebug_missing_deployment [OF get, of deployment_text "''quay.io/ceph/ceph:debug''"] get
  show ?thesis by simp
qed

text \<open>
  C4. When no get of the pod is answered with not-found, the deletion-wait helper makes
  exactly 60 attempts, each one a get of the target pod followed by a log line and a
  sleep of 5 seconds (the same interval every time), and then returns the error
  \<open>failed to delete pod <name>\<close>, which holds the pod's name.
\<close>

theorem waitForPodDeletion_exhausts:
  assumes "\<forall>r. PodsGet ns pod r \<in> set (fst (snd (waitForPodDeletion k ns pod w))) \<longrightarrow> \<not> IsNotFound (err_of r)"
  shows "fst (waitForPodDeletion k ns pod w) = Some (ErrorString (''failed to delete pod '' @ pod))
       \<and> (\<exists>rs. length rs = 60
             \<and> fst (snd (waitForPodDeletion k ns pod w))
               = concat (map (\<lambda>r. [PodsGet ns pod r,
                                    LogInfo ''waiting for pod %q to be deleted\<newline>'' [pod],
                                    Sleep (5 * 1000000000)]) rs))
       \<and> podGets (fst (snd (waitForPodDeletion k ns pod w))) = replicate 60 (ns, pod)
       \<and> sleeps (fst (snd (waitForPodDeletion k ns pod w))) = replicate 60 (5 * 1000000000)"
proof -
  let ?tr = "fst (snd (waitForPodDeletion k ns pod w))"
  have none: "\<not> list_ex (podAbsent ns pod) ?tr"
    using assms by (auto simp: list_ex_iff podAbsent_def split: event.splits)
  then have res: "fst (waitForPodDeletion k ns pod w) = Some (ErrorString (''failed to delete pod '' @ pod))"
    using waitForPodDeletion_from_result [of 0 k ns pod w] by (simp add: waitForPodDeletion_def)
  from none obtain rs where rs: "length rs = 60"
    "?tr = concat (map (\<lambda>r. [PodsGet ns pod r, LogInfo ''waiting for pod %q to be deleted\<newline>'' [pod],
                             Sleep (5 * 1000000000)]) rs)"
    using waitForPodDeletion_from_exhausted [of ns pod 0 k w]
    by (auto simp: waitForPodDeletion_def Second_def)
  have "podGets (concat (map (\<lambda>r. [PodsGet ns pod r, LogInfo ''waiting for pod %q to be deleted\<newline>'' [pod],
                             Sleep (5 * 1000000000)]) xs)) = replicate (length xs) (ns, pod)" for xs
    by (induction xs) simp_all
  moreover have "sleeps (concat (map (\<lambda>r. [PodsGet ns pod r, LogInfo ''waiting for pod %q to be deleted\<newline>'' [pod],
                             Sleep (5 * 1000000000)]) xs)) = replicate (length xs) (5 * 1000000000)" for xs
    by (induction xs) (simp_all add: sleeps_def)
  ultimately show ?thesis using res rs by auto
qed

theorem waitForPodDeletion_exhausts_witness:
  "\<not> list_ex (podAbsent ''rook-ceph'' ''rook-ceph-osd-0-7d9f-x2x4q'')
       (fst (snd (waitForPodDeletion cluster_client ''rook-ceph'' ''rook-ceph-osd-0-7d9f-x2x4q'' osd_cluster)))
   \<and> fst (waitForPodDeletion cluster_client ''rook-ceph'' ''rook-ceph-osd-0-7d9f-x2x4q'' osd_cluster)
     = Some (ErrorString ''failed to delete pod rook-ceph-osd-0-7d9f-x2x4q'')
   \<and> podGets (fst (snd (waitForPodDeletion cluster_client ''rook-ceph'' ''rook-ceph-osd-0-7d9f-x2x4q'' osd_cluster)))
     = replicate 60 (''rook-ceph'', ''rook-ceph-osd-0-7d9f-x2x4q'')
   \<and> sleeps (fst (snd (waitForPodDeletion cluster_client ''rook-ceph'' ''rook-ceph-osd-0-7d9f-x2x4q'' osd_cluster)))
     = replicate 60 5000000000"
proof -
  let ?tr = "fst (snd (waitForPodDeletion cluster_client ''rook-ceph'' ''rook-ceph-osd-0-7d9f-x2x4q'' osd_cluster))"
  have stays: "\<not> IsNotFound (err_of (fst (Pods_Get cluster_client ''rook-ceph'' ''rook-ceph-osd-0-7d9f-x2x4q'' w)))
               \<and> snd (Pods_Get cluster_client ''rook-ceph'' ''rook-ceph-osd-0-7d9f-x2x4q'' w) = osd_cluster"
    if "w = osd_cluster" for w
    using that by (simp add: cluster_client_def osd_cluster_def osd_pod_def named_def err_of_def)
  have never: "\<not> list_ex (podAbsent ''rook-ceph'' ''rook-ceph-osd-0-7d9f-x2x4q'') ?tr"
    unfolding waitForPodDeletion_def
    by (rule waitForPodDeletion_from_never_absent [where I = "\<lambda>w. w = osd_cluster"]) (use stays in auto)
  then have hyp: "\<forall>r. PodsGet ''rook-ceph'' ''rook-ceph-osd-0-7d9f-x2x4q'' r \<in> set ?tr
                    \<longrightarrow> \<not> IsNotFound (err_of r)"
    by (auto simp: list_ex_iff podAbsent_def)
  from waitForPodDeletion_exhausts [OF hyp] never show ?thesis by simp
qed



text \<open>
  C6. For every deployment name and replica count the scale helper issues exactly one
  Scale-subresource update, for that name and namespace and with the count as replicas.
  When the call fails the helper returns an error whose message holds the deployment name
  and the text of the underlying failure, and it does not call again; when the call
  succeeds it returns no error.
\<close>

theorem SetDeploymentScale_once:
  "let scale = \<lparr>Scale.ObjectMeta = \<lparr>Name = name, Namespace = ns, Labels = None\<rparr>,
                Scale.Spec = \<lparr>ScaleSpec.Replicas = ucast n\<rparr>\<rparr>;
       r = Deployments_UpdateScale k ns name scale w
   in snd (SetDeploymentScale k ns name n w) = ([DeploymentsUpdateScale ns name scale (fst r)], snd r)
      \<and> (\<forall>err. fst r = Inl err \<longrightarrow>
            fst (SetDeploymentScale k ns name n w)
            = Some (ErrorString (''failed to update scale of deployment '' @ name @ ''. ''
                                 @ Error err @ ''\<newline>'')))
      \<and> (\<forall>s. fst r = Inr s \<longrightarrow> fst (SetDeploymentScale k ns name n w) = None)"
  by (simp add: SetDeploymentScale_def Let_def split: sum.splits)

theorem SetDeploymentScale_once_witness:
  "SetDeploymentScale cluster_client ''rook-ceph'' ''rook-ceph-osd-0'' 0 osd_cluster
   = (None,
      [DeploymentsUpdateScale ''rook-ceph'' ''rook-ceph-osd-0''
         \<lparr>Scale.ObjectMeta = \<lparr>Name = ''rook-ceph-osd-0'', Namespace = ''rook-ceph'', Labels = None\<rparr>,
          Scale.Spec = \<lparr>ScaleSpec.Replicas = 0\<rparr>\<rparr>
         (Inr \<lparr>Scale.ObjectMeta = \<lparr>Name = ''rook-ceph-osd-0'', Namespace = ''rook-ceph'', Labels = None\<rparr>,
               Scale.Spec = \<lparr>ScaleSpec.Replicas = 0\<rparr>\<rparr>)],
      snd (snd (SetDeploymentScale cluster_client ''rook-ceph'' ''rook-ceph-osd-0'' 0 osd_cluster)))
   \<and> fst (SetDeploymentScale cluster_client ''rook-ceph'' ''rook-ceph-osd-9'' 3 osd_cluster)
     = Some (ErrorString ''failed to update scale of deployment rook-ceph-osd-9. rook-ceph-osd-9 not found\<newline>'')
   \<and> scaleUpdates (fst (snd (SetDeploymentScale cluster_client ''rook-ceph'' ''rook-ceph-osd-9'' 3 osd_cluster)))
     = [(''rook-ceph'', ''rook-ceph-osd-9'', 3)]"
proof -
  have ok: "fst (Deployments_UpdateScale cluster_client ''rook-ceph'' ''rook-ceph-osd-0''
                  \<lparr>Scale.ObjectMeta = \<lparr>Name = ''rook-ceph-osd-0'', Namespace = ''rook-ceph'', Labels = None\<rparr>,
                   Scale.Spec = \<lparr>ScaleSpec.Replicas = 0\<rparr>\<rparr> osd_cluster)
            = Inr \<lparr>Scale.ObjectMeta = \<lparr>Name = ''rook-ceph-osd-0'', Namespace = ''rook-ceph'', Labels = None\<rparr>,
                   Scale.Spec = \<lparr>ScaleSpec.Replicas = 0\<rparr>\<rparr>"
    by (simp add: cluster_client_def osd_cluster_def osd_deployment_def named_def)
  have bad: "fst (Deployments_UpdateScale cluster_client ''rook-ceph'' ''rook-ceph-osd-9''
                   \<lparr>Scale.ObjectMeta = \<lparr>Name = ''rook-ceph-osd-9'', Namespace = ''rook-ceph'', Labels = None\<rparr>,
                    Scale.Spec = \<lparr>ScaleSpec.Replicas = 3\<rparr>\<rparr> osd_cluster)
             = Inl (notFound ''rook-ceph-osd-9'')"
    by (simp add: cluster_client_def osd_cluster_def osd_deployment_def named_def)
  show ?thesis
    using SetDeploymentScale_once [where k = cluster_client and ns = "''rook-ceph''"
            and name = "''rook-ceph-osd-0''" and n = 0 and w = osd_cluster]
          SetDeploymentScale_once [where k = cluster_client and ns = "''rook-ceph''"
            and name = "''rook-ceph-osd-9''" and n = 3 and w = osd_cluster]
          ok bad
    by (simp add: Let_def prod_eq_iff notFound_def scaleUpdates_def)
qed



text \<open>
  C8. The workflow is not idempotent. It never looks for the debug deployment before it
  creates it: the one deployment it fetches is the original. Whenever the deletion wait
  has succeeded it issues a create call for \<open><name>-debug\<close>, whether or not a deployment
  of that name exists. When that call is refused because the name is taken, it is the
  only create call and the last event of the run, and the workflow returns the error of
  the refusal: it neither skips the step nor replaces the deployment. A second run after
  a successful first one ends this way.
\<close>

theorem startDebug_conflict:
  assumes get: "fst (Deployments_Get k ns name w) = Inr d"
  shows "deploymentGets (fst (snd (startDebug f k ns name alt w))) = [(ns, name)]
       \<and> (list_ex (podAbsent ns name) (fst (snd (startDebug f k ns name alt w))) \<longrightarrow>
            map fst (createCalls (fst (snd (startDebug f k ns name alt w)))) = [ns]
            \<and> map (Name \<circ> Deployment.ObjectMeta \<circ> snd) (createCalls (fst (snd (startDebug f k ns name alt w))))
              = [name @ ''-debug''])
       \<and> (\<forall>ns' dd msg.
            DeploymentsCreate ns' dd (Inl (StatusError StatusReasonAlreadyExists msg))
              \<in> set (fst (snd (startDebug f k ns name alt w))) \<longrightarrow>
            Name (Deployment.ObjectMeta dd) = name @ ''-debug''
            \<and> createCalls (fst (snd (startDebug f k ns name alt w))) = [(ns, dd)]
            \<and> last (fst (snd (startDebug f k ns name alt w)))
              = DeploymentsCreate ns' dd (Inl (StatusError StatusReasonAlreadyExists msg))
            \<and> fst (startDebug f k ns name alt w)
              = Return (Some (ErrorString (''Error creating deployment '' @ f dd @ ''. '' @ msg @ ''\<newline>''))))"
proof (cases "containers d = [] \<or> Labels (Deployment.ObjectMeta d) = None")
  case True
  show ?thesis
    by (auto simp: startDebug_panic [OF get True] split: if_splits)
next
  case False
  then obtain m where cs: "containers d \<noteq> []" and lb: "Labels (Deployment.ObjectMeta d) = Some m"
    by auto
  show ?thesis
    by (rule startDebug_shape [OF get cs lb, of f alt])
       (auto simp: preamble_def scaledDown_def scaleOf_def listStep_facts pollStep_facts
            listStep_no_create pollStep_no_create split: if_splits)
qed

theorem startDebug_conflict_witness:
  "startDebug deployment_text cluster_client ''rook-ceph'' ''rook-ceph-osd-0'' ''quay.io/ceph/ceph:debug''
     osd_cluster = (Return None, first_run_trace, debugged_cluster)
   \<and> fst (Deployments_Get cluster_client ''rook-ceph'' ''rook-ceph-osd-0'' debugged_cluster)
     = Inr osd_deployment_down
   \<and> list_ex (podAbsent ''rook-ceph'' ''rook-ceph-osd-0'')
       (fst (snd (startDebug deployment_text cluster_client ''rook-ceph'' ''rook-ceph-osd-0''
          ''quay.io/ceph/ceph:debug'' debugged_cluster)))
   \<and> DeploymentsCreate ''rook-ceph'' osd_debug_deployment_down
        (Inl (StatusError StatusReasonAlreadyExists ''rook-ceph-osd-0-debug already exists''))
       \<in> set (fst (snd (startDebug deployment_text cluster_client ''rook-ceph'' ''rook-ceph-osd-0''
             ''quay.io/ceph/ceph:debug'' debugged_cluster)))
   \<and> Name (Deployment.ObjectMeta osd_debug_deployment_down) = ''rook-ceph-osd-0-debug''
   \<and> deploymentGets (fst (snd (startDebug deployment_text cluster_client ''rook-ceph'' ''rook-ceph-osd-0''
        ''quay.io/ceph/ceph:debug'' debugged_cluster))) = [(''rook-ceph'', ''rook-ceph-osd-0'')]
   \<and> createCalls (fst (snd (startDebug deployment_text cluster_client ''rook-ceph'' ''rook-ceph-osd-0''
        ''quay.io/ceph/ceph:debug'' debugged_cluster))) = [(''rook-ceph'', osd_debug_deployment_down)]
   \<and> fst (startDebug deployment_text cluster_client ''rook-ceph'' ''rook-ceph-osd-0''
            ''quay.io/ceph/ceph:debug'' debugged_cluster)
     = Return (Some (ErrorString
         ''Error creating deployment &Deployment{rook-ceph-osd-0-debug}. rook-ceph-osd-0-debug already exists\<newline>''))
   \<and> snd (snd (startDebug deployment_text cluster_client ''rook-ceph'' ''rook-ceph-osd-0''
        ''quay.io/ceph/ceph:debug'' debugged_cluster)) = debugged_cluster"
proof -
  let ?tr = "fst (snd (startDebug deployment_text cluster_client ''rook-ceph'' ''rook-ceph-osd-0''
                         ''quay.io/ceph/ceph:debug'' debugged_cluster))"
  have conflict: "DeploymentsCreate ''rook-ceph'' osd_debug_deployment_down
        (Inl (StatusError StatusReasonAlreadyExists ''rook-ceph-osd-0-debug already exists'')) \<in> set ?tr"
    by (simp add: second_run refused_run_trace_def already_exists_def)
  have absent: "list_ex (podAbsent ''rook-ceph'' ''rook-ceph-osd-0'') ?tr"
    by (simp add: second_run refused_run_trace_def run_prefix_def podAbsent_def err_of_def)
  have rendered: "deployment_text osd_debug_deployment_down = ''&Deployment{rook-ceph-osd-0-debug}''"
    by (simp add: deployment_text_def osd_debug_deployment_down_def osd_debug_deployment_def)
  from startDebug_conflict [OF cluster_gets(2), of deployment_text "''quay.io/ceph/ceph:debug''"]
    conflict absent
  have "deploymentGets ?tr = [(''rook-ceph'', ''rook-ceph-osd-0'')]
        \<and> map (Name \<circ> Deployment.ObjectMeta \<circ> snd) (createCalls ?tr) = [''rook-ceph-osd-0'' @ ''-debug'']
        \<and> Name (Deployment.ObjectMeta osd_debug_deployment_down) = ''rook-ceph-osd-0'' @ ''-debug''
        \<and> createCalls ?tr = [(''rook-ceph'', osd_debug_deployment_down)]
        \<and> fst (startDebug deployment_text cluster_client ''rook-ceph'' ''rook-ceph-osd-0''
                 ''quay.io/ceph/ceph:debug'' debugged_cluster)
          = Return (Some (ErrorString (''Error creating deployment '' @ deployment_text osd_debug_deployment_down
                     @ ''. '' @ ''rook-ceph-osd-0-debug already exists'' @ ''\<newline>'')))"
    by blast
  with cluster_gets(2) conflict absent first_run rendered
  show ?thesis by (simp add: second_run)
qed

text \<open>
  C9. The image of the first container of the deployment handed to the create call is
  the alternate image when that argument is not empty, and the image of the fetched
  deployment when it is empty; the images of the other containers are those of the fetched
  deployment in both cases.
\<close>

theorem startDebug_keeps_image:
  assumes get: "fst (Deployments_Get k ns name w) = Inr d"
    and call: "(ns', dd) \<in> set (createCalls (fst (snd (startDebug f k ns name alt w))))"
  shows "(alt = '''' \<longrightarrow> map Image (containers dd) = map Image (containers d))
       \<and> (alt \<noteq> '''' \<longrightarrow> Image (hd (containers dd)) = alt)
       \<and> map Image (tl (containers dd)) = map Image (tl (containers d))"
proof (cases "containers d = [] \<or> Labels (Deployment.ObjectMeta d) = None")
  case True
  from call startDebug_createCalls_panic [OF get True, of f alt] show ?thesis by simp
next
  case False
  then obtain m where cs: "containers d \<noteq> []" and lb: "Labels (Deployment.ObjectMeta d) = Some m"
    by auto
  have "map Image (containers d) = Image (hd (containers d)) # map Image (tl (containers d))"
    using cs by (cases "containers d") simp_all
  with call startDebug_createCalls(1) [OF get cs lb, of f alt] show ?thesis
    by (auto simp: debugContainer_def split: if_splits)
qed

theorem startDebug_keeps_image_witness:
  "fst (Deployments_Get cluster_client ''rook-ceph'' ''rook-ceph-osd-0'' osd_cluster) = Inr osd_deployment
   \<and> map (map Image \<circ> containers \<circ> snd)
        (createCalls (fst (snd (startDebug deployment_text cluster_client ''rook-ceph'' ''rook-ceph-osd-0'' ''''
           osd_cluster)))) = [map Image (containers osd_deployment)]
   \<and> map Image (containers osd_deployment) = [''quay.io/ceph/ceph:v17'', ''quay.io/ceph/ceph:v17'']
   \<and> map (map Image \<circ> containers \<circ> snd)
        (createCalls (fst (snd (startDebug deployment_text cluster_client ''rook-ceph'' ''rook-ceph-osd-0''
           ''quay.io/ceph/ceph:debug'' osd_cluster))))
     = [[''quay.io/ceph/ceph:debug'', ''quay.io/ceph/ceph:v17'']]"
proof -
  let ?plain = "createCalls (fst (snd (startDebug deployment_text cluster_client ''rook-ceph''
                  ''rook-ceph-osd-0'' '''' osd_cluster)))"
  let ?debug = "createCalls (fst (snd (startDebug deployment_text cluster_client ''rook-ceph''
                  ''rook-ceph-osd-0'' ''quay.io/ceph/ceph:debug'' osd_cluster)))"
  have one: "length ?plain = 1"
    using arg_cong [OF plain_run_creates, of length] by simp
  then obtain c where c: "?plain = [c]"
    by (cases ?plain) simp_all
  then have call: "(fst c, snd c) \<in> set ?plain" by simp
  have images: "map Image (containers osd_deployment) = [''quay.io/ceph/ceph:v17'', ''quay.io/ceph/ceph:v17'']"
    "map Image (tl (containers osd_deployment)) = [''quay.io/ceph/ceph:v17'']"
    by (simp_all add: osd_deployment_def containers_def osd_container_def log_container_def)
  have call': "(''rook-ceph'', osd_debug_deployment) \<in> set ?debug"
    by (simp add: first_run first_run_trace_def run_prefix_def)
  have debug: "?debug = [(''rook-ceph'', osd_debug_deployment)]"
    by (simp add: first_run first_run_trace_def run_prefix_def)
  have tail: "tl (containers osd_debug_deployment) = [log_container]" "containers osd_debug_deployment \<noteq> []"
    by (simp_all add: osd_debug_deployment_def containers_def)
  have "map Image (containers osd_debug_deployment)
        = Image (hd (containers osd_debug_deployment)) # map Image (tl (containers osd_debug_deployment))"
    using tail(2) by (cases "containers osd_debug_deployment") simp_all
  with startDebug_keeps_image [OF cluster_gets(1) call] startDebug_keeps_image [OF cluster_gets(1) call']
    cluster_gets(1) c images debug
  show ?thesis by (simp add: log_container_def)
qed

text \<open>
  C10. After a successful fetch the workflow panics exactly when the deployment has no
  container or a nil label map. With at least one container and a non-nil label map the
  mutation of lines 47-63 succeeds (no index and no map write is out of bounds), keeps the
  number of containers and leaves every container but the first as it was, and so does the
  deployment handed to the create call.
\<close>

theorem startDebug_first_container_only:
  assumes get: "fst (Deployments_Get k ns name w) = Inr d"
  shows "((\<exists>p. fst (startDebug f k ns name alt w) = Panic p)
          \<longleftrightarrow> containers d = [] \<or> Labels (Deployment.ObjectMeta d) = None)
       \<and> (containers d \<noteq> [] \<and> Labels (Deployment.ObjectMeta d) \<noteq> None \<longrightarrow>
            (\<exists>d' labels. fst (startDebug_mutate d alt) = Inr (d', labels)
               \<and> length (containers d') = length (containers d)
               \<and> tl (containers d') = tl (containers d)))
       \<and> (\<forall>ns' dd. (ns', dd) \<in> set (createCalls (fst (snd (startDebug f k ns name alt w))))
             \<longrightarrow> length (containers dd) = length (containers d)
                 \<and> tl (containers dd) = tl (containers d))"
proof (cases "containers d = [] \<or> Labels (Deployment.ObjectMeta d) = None")
  case True
  with startDebug_createCalls_panic [OF get True, of f alt] startDebug_panic [OF get True, of f alt]
  show ?thesis by auto
next
  case False
  then obtain m where cs: "containers d \<noteq> []" and lb: "Labels (Deployment.ObjectMeta d) = Some m"
    by auto
  have len: "Suc (length (tl (containers d))) = length (containers d)"
    using cs by (cases "containers d") simp_all
  have no_panic: "fst (startDebug f k ns name alt w) \<noteq> Panic p" for p
    by (rule startDebug_shape [OF get cs lb, of f alt]) simp_all
  from no_panic cs lb len startDebug_createCalls(1) [OF get cs lb, of f alt]
    startDebug_mutate_ok [OF cs lb, of alt]
  show ?thesis by (auto split: if_splits)
qed

theorem startDebug_first_container_only_witness:
  "fst (Deployments_Get cluster_client ''rook-ceph'' ''rook-ceph-osd-0'' osd_cluster) = Inr osd_deployment
   \<and> containers osd_deployment = [osd_container, log_container]
   \<and> Labels (Deployment.ObjectMeta osd_deployment) = Some osd_label_map
   \<and> fst (startDebug deployment_text cluster_client ''rook-ceph'' ''rook-ceph-osd-0''
            ''quay.io/ceph/ceph:debug'' osd_cluster) = Return None
   \<and> createCalls (fst (snd (startDebug deployment_text cluster_client ''rook-ceph'' ''rook-ceph-osd-0''
        ''quay.io/ceph/ceph:debug'' osd_cluster))) = [(''rook-ceph'', osd_debug_deployment)]
   \<and> length (containers osd_debug_deployment) = 2
   \<and> tl (containers osd_debug_deployment) = [log_container]
   \<and> fst (Deployments_Get cluster_client ''rook-ceph'' ''rook-ceph-osd-0'' bare_cluster) = Inr bare_deployment
   \<and> containers bare_deployment = []
   \<and> (\<exists>p. fst (startDebug deployment_text cluster_client ''rook-ceph'' ''rook-ceph-osd-0''
                  ''quay.io/ceph/ceph:debug'' bare_cluster) = Panic p)"
proof -
  have facts: "containers osd_deployment = [osd_container, log_container]"
    "Labels (Deployment.ObjectMeta osd_deployment) = Some osd_label_map"
    "containers bare_deployment = []"
    by (simp_all add: osd_deployment_def bare_deployment_def containers_def osd_labels_def)
  have calls: "createCalls (fst (snd (startDebug deployment_text cluster_client ''rook-ceph''
                 ''rook-ceph-osd-0'' ''quay.io/ceph/ceph:debug'' osd_cluster)))
               = [(''rook-ceph'', osd_debug_deployment)]"
    by (simp add: first_run first_run_trace_def run_prefix_def)
  from startDebug_first_container_only [OF cluster_gets(1), of deployment_text "''quay.io/ceph/ceph:debug''"]
    startDebug_first_container_only [OF cluster_gets(4), of deployment_text "''quay.io/ceph/ceph:debug''"]
    cluster_gets(1) cluster_gets(4) facts calls
  show ?thesis by (simp add: first_run)
qed

end
